theory Spec2Isabelle
  imports Complex_Main "HOL-Library.Sublist"
begin

section \<open>The host object model\<close>

text \<open>
  The three scripts (percenttriangles, OverReducedFinder, TrianglesListMaker) run inside
  the editor host and touch a mesh only through host calls. The host is not part of the
  repository, so a mesh is a record that says, for each host call the scripts make, what
  that call does on this mesh: the value it returns or the exception it raises.

  \<open>exn\<close> stands for the exceptions derived from Python's \<open>Exception\<close> class, which
  is what a host call raises and what \<open>except Exception\<close> catches (\<open>KeyboardInterrupt\<close>
  and \<open>SystemExit\<close> are not modelled); \<open>AttributeError\<close> is kept apart because
  \<open>ensure_nanite_disabled\<close> catches it alone.
  Reduction ratios are Python floats; they are modelled as reals (no rounding, no NaN).
\<close>

datatype exn = AttributeError | HostError

text \<open>How the body of a \<open>try\<close> block ends: it raises, it executes a \<open>return\<close>,
  or it runs to its end without returning.\<close>

datatype 'a outcome = Raised exn | Returned 'a | Completed

text \<open>The host calls, as they are recorded in call order in the field \<open>calls\<close>.\<close>

datatype call =
    GetName
  | GetPathName
  | GetOuter
  | GetEditorProperty string
  | SetEditorProperty string
  | ReadPercentTriangles
  | ReadEnabled
  | WriteEnabled
  | GetEditorSubsystem
  | GetLodReductionSettings
  | SetLodReductionSettings
  | GetNumTriangles
  | IsNaniteEnabled
  | SetNaniteEnabled
  | RebuildLods
  | BuildStaticMesh
  | Build
  | SaveLoadedAsset
  | SavePackages
  | UnrealLog

text \<open>A reduction settings struct: \<open>percent_triangles\<close> is what
  \<open>float(red.percent_triangles)\<close> gives, \<open>set_percent_triangles\<close> the exception that
  \<open>red.set_editor_property("percent_triangles", v)\<close> raises, if it raises.\<close>

record ReductionSettings =
  percent_triangles :: "exn + real"
  set_percent_triangles :: "exn option"

text \<open>An element of \<open>lods\<close> or of \<open>source_models\<close>.\<close>

record SourceModel =
  reduction_settings :: "exn + ReductionSettings"
  set_reduction_settings :: "exn option"

text \<open>The struct behind the property \<open>nanite_settings\<close>: \<open>enabled\<close> is \<open>None\<close> when the
  struct has no attribute of that name (then \<open>getattr(_, "enabled", False)\<close> is False).\<close>

record NaniteSettings =
  enabled :: "bool option"
  set_enabled :: "exn option"

text \<open>The property \<open>render_data\<close>: \<open>render_lods\<close> is \<open>None\<close> when there is no attribute
  \<open>lods\<close>; an element is \<open>None\<close> when it has no method \<open>get_num_triangles\<close>, and otherwise
  what \<open>int(lod0.get_num_triangles())\<close> gives.\<close>

record RenderData =
  render_lods :: "(exn + int) option list option"

text \<open>
  A static mesh. \<open>get_name\<close> and \<open>get_path_name\<close> are methods of every host object,
  called outside any \<open>try\<close> block throughout the scripts, and return. A property getter is
  a value of type \<open>exn + _\<close>; a setter or an action is the exception it raises, if any
  (\<open>exn option\<close>); a method that the scripts probe with \<open>hasattr\<close> first has one more
  \<open>option\<close>, \<open>None\<close> when the attribute is missing. \<open>get_outer\<close> is the exception
  that \<open>static_mesh.get_outer()\<close> raises, if any.
  \<open>lod_reduction_settings\<close> is what the accessors get from
  \<open>get_editor_subsystem(StaticMeshEditorSubsystem).get_lod_reduction_settings(mesh, 0)\<close>
  inside their \<open>try\<close> block (\<open>None\<close> for a falsy result, \<open>Inl e\<close> when the lookup
  or the call raises \<open>e\<close>); \<open>get_editor_subsystem\<close> is the exception that the lookup
  \<open>unreal.get_editor_subsystem(unreal.StaticMeshEditorSubsystem)\<close> raises, if any, where
  \<open>build_and_save\<close> makes it outside any \<open>try\<close> block. An empty list stands for a falsy
  \<open>lods\<close> or \<open>source_models\<close>. \<open>num_triangles\<close> is what \<open>get_num_triangles(0)\<close>
  gives, an integer or an exception; every host object has \<open>get_editor_property\<close>, so
  \<open>hasattr(static_mesh, 'get_editor_property')\<close> holds. \<open>nanite_enabled\<close> is the Nanite
  flag that \<open>is_nanite_enabled\<close> reports and \<open>set_nanite_enabled\<close> writes.
\<close>

record StaticMesh =
  get_name :: string
  get_path_name :: string
  lods :: "exn + SourceModel list"
  set_lods :: "exn option"
  source_models :: "exn + SourceModel list"
  set_source_models :: "exn option"
  lod_reduction_settings :: "exn + ReductionSettings option"
  set_lod_reduction_settings :: "exn option"
  num_triangles :: "(exn + int) option"
  render_data :: "exn + RenderData option"
  nanite_enabled :: bool
  is_nanite_enabled :: "exn option"
  set_nanite_enabled :: "exn option"
  nanite_settings :: "exn + NaniteSettings option"
  set_nanite_settings :: "exn option"
  rebuild_lods :: "exn option option"
  build_static_mesh :: "exn option option"
  build :: "exn option option"
  save_loaded_asset :: "exn option"
  save_packages :: "exn option option"
  get_outer :: "exn option"
  get_editor_subsystem :: "exn option"
  calls :: "call list"

definition call :: "call \<Rightarrow> StaticMesh \<Rightarrow> StaticMesh" where
  "call c m = m\<lparr>calls := calls m @ [c]\<rparr>"

section \<open>Reading the LOD0 reduction ratio\<close>

text \<open>
  \<open>get_percent_triangles_lod0\<close> is the same text in the three scripts: three \<open>try\<close>
  blocks, each closed by \<open>except Exception: pass\<close>. The bodies of the three blocks:

  \<^verbatim>\<open>lods = static_mesh.get_editor_property("lods")
  if lods:
      lod0 = lods[0]
      red = lod0.get_editor_property("reduction_settings")
      return float(red.percent_triangles)\<close>
\<close>

definition read_via_lods :: "StaticMesh \<Rightarrow> real outcome \<times> StaticMesh" where
  "read_via_lods m =
    (let m1 = call (GetEditorProperty ''lods'') m in
     case lods m of
       Inl e \<Rightarrow> (Raised e, m1)
     | Inr [] \<Rightarrow> (Completed, m1)
     | Inr (lod0 # _) \<Rightarrow>
        (let m2 = call (GetEditorProperty ''reduction_settings'') m1 in
         case reduction_settings lod0 of
           Inl e \<Rightarrow> (Raised e, m2)
         | Inr red \<Rightarrow>
            (let m3 = call ReadPercentTriangles m2 in
             case percent_triangles red of
               Inl e \<Rightarrow> (Raised e, m3)
             | Inr v \<Rightarrow> (Returned v, m3))))"

text \<open>
  \<^verbatim>\<open>source_models = static_mesh.get_editor_property("source_models")
  if source_models:
      red = source_models[0].get_editor_property("reduction_settings")
      return float(red.percent_triangles)\<close>
\<close>

definition read_via_source_models :: "StaticMesh \<Rightarrow> real outcome \<times> StaticMesh" where
  "read_via_source_models m =
    (let m1 = call (GetEditorProperty ''source_models'') m in
     case source_models m of
       Inl e \<Rightarrow> (Raised e, m1)
     | Inr [] \<Rightarrow> (Completed, m1)
     | Inr (sm0 # _) \<Rightarrow>
        (let m2 = call (GetEditorProperty ''reduction_settings'') m1 in
         case reduction_settings sm0 of
           Inl e \<Rightarrow> (Raised e, m2)
         | Inr red \<Rightarrow>
            (let m3 = call ReadPercentTriangles m2 in
             case percent_triangles red of
               Inl e \<Rightarrow> (Raised e, m3)
             | Inr v \<Rightarrow> (Returned v, m3))))"

text \<open>
  \<^verbatim>\<open>smes = unreal.get_editor_subsystem(unreal.StaticMeshEditorSubsystem)
  settings = smes.get_lod_reduction_settings(static_mesh, 0)
  if settings:
      return float(settings.percent_triangles)\<close>
\<close>

definition read_via_subsystem :: "StaticMesh \<Rightarrow> real outcome \<times> StaticMesh" where
  "read_via_subsystem m =
    (let m1 = call GetEditorSubsystem m;
         m2 = call GetLodReductionSettings m1 in
     case lod_reduction_settings m of
       Inl e \<Rightarrow> (Raised e, m2)
     | Inr None \<Rightarrow> (Completed, m2)
     | Inr (Some settings) \<Rightarrow>
        (let m3 = call ReadPercentTriangles m2 in
         case percent_triangles settings of
           Inl e \<Rightarrow> (Raised e, m3)
         | Inr v \<Rightarrow> (Returned v, m3)))"

text \<open>The function: a block that returns ends the function with its value; a block that
  raises or runs to its end is followed by the next block; after the last one the function
  returns \<open>None\<close>. The result is \<open>Inl e\<close> if the call raises \<open>e\<close> to its caller.\<close>

definition pt_get_percent_triangles_lod0 ::
    "StaticMesh \<Rightarrow> (exn + real option) \<times> StaticMesh" where
  "pt_get_percent_triangles_lod0 static_mesh =
    (case read_via_lods static_mesh of
       (Returned v, m1) \<Rightarrow> (Inr (Some v), m1)
     | (_, m1) \<Rightarrow>
        (case read_via_source_models m1 of
           (Returned v, m2) \<Rightarrow> (Inr (Some v), m2)
         | (_, m2) \<Rightarrow>
            (case read_via_subsystem m2 of
               (Returned v, m3) \<Rightarrow> (Inr (Some v), m3)
             | (_, m3) \<Rightarrow> (Inr None, m3))))"

definition orf_get_percent_triangles_lod0 ::
    "StaticMesh \<Rightarrow> (exn + real option) \<times> StaticMesh" where
  "orf_get_percent_triangles_lod0 static_mesh =
    (case read_via_lods static_mesh of
       (Returned v, m1) \<Rightarrow> (Inr (Some v), m1)
     | (_, m1) \<Rightarrow>
        (case read_via_source_models m1 of
           (Returned v, m2) \<Rightarrow> (Inr (Some v), m2)
         | (_, m2) \<Rightarrow>
            (case read_via_subsystem m2 of
               (Returned v, m3) \<Rightarrow> (Inr (Some v), m3)
             | (_, m3) \<Rightarrow> (Inr None, m3))))"

definition tlm_get_percent_triangles_lod0 ::
    "StaticMesh \<Rightarrow> (exn + real option) \<times> StaticMesh" where
  "tlm_get_percent_triangles_lod0 static_mesh =
    (case read_via_lods static_mesh of
       (Returned v, m1) \<Rightarrow> (Inr (Some v), m1)
     | (_, m1) \<Rightarrow>
        (case read_via_source_models m1 of
           (Returned v, m2) \<Rightarrow> (Inr (Some v), m2)
         | (_, m2) \<Rightarrow>
            (case read_via_subsystem m2 of
               (Returned v, m3) \<Rightarrow> (Inr (Some v), m3)
             | (_, m3) \<Rightarrow> (Inr None, m3))))"

text \<open>The fallback chain of the read, in priority order.\<close>

definition read_chain :: "(StaticMesh \<Rightarrow> real outcome \<times> StaticMesh) list" where
  "read_chain = [read_via_lods, read_via_source_models, read_via_subsystem]"

section \<open>Writing the LOD0 reduction ratio\<close>

text \<open>
  \<open>set_percent_triangles_lod0\<close> has the same three \<open>try\<close> blocks in percenttriangles and
  in OverReducedFinder. The host hands out structs and arrays by value, which is why the
  script writes each one back; the mesh changes when the last write-back returns.

  \<^verbatim>\<open>lods = static_mesh.get_editor_property("lods")
  if lods:
      lod0 = lods[0]
      red = lod0.get_editor_property("reduction_settings")
      red.set_editor_property("percent_triangles", value_raw)
      lod0.set_editor_property("reduction_settings", red)
      static_mesh.set_editor_property("lods", lods)
      return True\<close>
\<close>

definition write_via_lods :: "real \<Rightarrow> StaticMesh \<Rightarrow> bool outcome \<times> StaticMesh" where
  "write_via_lods value_raw m =
    (let m1 = call (GetEditorProperty ''lods'') m in
     case lods m of
       Inl e \<Rightarrow> (Raised e, m1)
     | Inr [] \<Rightarrow> (Completed, m1)
     | Inr (lod0 # rest) \<Rightarrow>
        (let m2 = call (GetEditorProperty ''reduction_settings'') m1 in
         case reduction_settings lod0 of
           Inl e \<Rightarrow> (Raised e, m2)
         | Inr red \<Rightarrow>
            (let m3 = call (SetEditorProperty ''percent_triangles'') m2 in
             case set_percent_triangles red of
               Some e \<Rightarrow> (Raised e, m3)
             | None \<Rightarrow>
                (let red' = red\<lparr>percent_triangles := Inr value_raw\<rparr>;
                     m4 = call (SetEditorProperty ''reduction_settings'') m3 in
                 case set_reduction_settings lod0 of
                   Some e \<Rightarrow> (Raised e, m4)
                 | None \<Rightarrow>
                    (let lod0' = lod0\<lparr>reduction_settings := Inr red'\<rparr>;
                         m5 = call (SetEditorProperty ''lods'') m4 in
                     case set_lods m of
                       Some e \<Rightarrow> (Raised e, m5)
                     | None \<Rightarrow> (Returned True, m5\<lparr>lods := Inr (lod0' # rest)\<rparr>))))))"

text \<open>
  \<^verbatim>\<open>source_models = static_mesh.get_editor_property("source_models")
  if source_models:
      red = source_models[0].get_editor_property("reduction_settings")
      red.set_editor_property("percent_triangles", value_raw)
      source_models[0].set_editor_property("reduction_settings", red)
      static_mesh.set_editor_property("source_models", source_models)
      return True\<close>
\<close>

definition write_via_source_models ::
    "real \<Rightarrow> StaticMesh \<Rightarrow> bool outcome \<times> StaticMesh" where
  "write_via_source_models value_raw m =
    (let m1 = call (GetEditorProperty ''source_models'') m in
     case source_models m of
       Inl e \<Rightarrow> (Raised e, m1)
     | Inr [] \<Rightarrow> (Completed, m1)
     | Inr (sm0 # rest) \<Rightarrow>
        (let m2 = call (GetEditorProperty ''reduction_settings'') m1 in
         case reduction_settings sm0 of
           Inl e \<Rightarrow> (Raised e, m2)
         | Inr red \<Rightarrow>
            (let m3 = call (SetEditorProperty ''percent_triangles'') m2 in
             case set_percent_triangles red of
               Some e \<Rightarrow> (Raised e, m3)
             | None \<Rightarrow>
                (let red' = red\<lparr>percent_triangles := Inr value_raw\<rparr>;
                     m4 = call (SetEditorProperty ''reduction_settings'') m3 in
                 case set_reduction_settings sm0 of
                   Some e \<Rightarrow> (Raised e, m4)
                 | None \<Rightarrow>
                    (let sm0' = sm0\<lparr>reduction_settings := Inr red'\<rparr>;
                         m5 = call (SetEditorProperty ''source_models'') m4 in
                     case set_source_models m of
                       Some e \<Rightarrow> (Raised e, m5)
                     | None \<Rightarrow>
                        (Returned True, m5\<lparr>source_models := Inr (sm0' # rest)\<rparr>))))))"

text \<open>
  \<^verbatim>\<open>smes = unreal.get_editor_subsystem(unreal.StaticMeshEditorSubsystem)
  settings = smes.get_lod_reduction_settings(static_mesh, 0)
  if settings:
      settings.set_editor_property("percent_triangles", value_raw)
      smes.set_lod_reduction_settings(static_mesh, 0, settings)
      return True\<close>
\<close>

definition write_via_subsystem :: "real \<Rightarrow> StaticMesh \<Rightarrow> bool outcome \<times> StaticMesh" where
  "write_via_subsystem value_raw m =
    (let m1 = call GetEditorSubsystem m;
         m2 = call GetLodReductionSettings m1 in
     case lod_reduction_settings m of
       Inl e \<Rightarrow> (Raised e, m2)
     | Inr None \<Rightarrow> (Completed, m2)
     | Inr (Some settings) \<Rightarrow>
        (let m3 = call (SetEditorProperty ''percent_triangles'') m2 in
         case set_percent_triangles settings of
           Some e \<Rightarrow> (Raised e, m3)
         | None \<Rightarrow>
            (let settings' = settings\<lparr>percent_triangles := Inr value_raw\<rparr>;
                 m4 = call SetLodReductionSettings m3 in
             case set_lod_reduction_settings m of
               Some e \<Rightarrow> (Raised e, m4)
             | None \<Rightarrow>
                (Returned True, m4\<lparr>lod_reduction_settings := Inr (Some settings')\<rparr>))))"

text \<open>percenttriangles: after the three blocks,
  \<^verbatim>\<open>_log(f"Failed to set percent triangles on {static_mesh.get_name()}: no writable path")\<close>
  and \<open>return False\<close>.\<close>

definition pt_set_percent_triangles_lod0 ::
    "StaticMesh \<Rightarrow> real \<Rightarrow> (exn + bool) \<times> StaticMesh" where
  "pt_set_percent_triangles_lod0 static_mesh value_raw =
    (case write_via_lods value_raw static_mesh of
       (Returned b, m1) \<Rightarrow> (Inr b, m1)
     | (_, m1) \<Rightarrow>
        (case write_via_source_models value_raw m1 of
           (Returned b, m2) \<Rightarrow> (Inr b, m2)
         | (_, m2) \<Rightarrow>
            (case write_via_subsystem value_raw m2 of
               (Returned b, m3) \<Rightarrow> (Inr b, m3)
             | (_, m3) \<Rightarrow> (Inr False, call UnrealLog (call GetName m3)))))"

text \<open>OverReducedFinder: the same blocks, then \<open>return False\<close> with no log line.\<close>

definition orf_set_percent_triangles_lod0 ::
    "StaticMesh \<Rightarrow> real \<Rightarrow> (exn + bool) \<times> StaticMesh" where
  "orf_set_percent_triangles_lod0 static_mesh value_raw =
    (case write_via_lods value_raw static_mesh of
       (Returned b, m1) \<Rightarrow> (Inr b, m1)
     | (_, m1) \<Rightarrow>
        (case write_via_source_models value_raw m1 of
           (Returned b, m2) \<Rightarrow> (Inr b, m2)
         | (_, m2) \<Rightarrow>
            (case write_via_subsystem value_raw m2 of
               (Returned b, m3) \<Rightarrow> (Inr b, m3)
             | (_, m3) \<Rightarrow> (Inr False, m3))))"

text \<open>The fallback chain of the write, in priority order.\<close>

definition write_chain :: "real \<Rightarrow> (StaticMesh \<Rightarrow> bool outcome \<times> StaticMesh) list" where
  "write_chain value_raw =
    [write_via_lods value_raw, write_via_source_models value_raw,
     write_via_subsystem value_raw]"

section \<open>The LOD0 triangle count\<close>

text \<open>
  \<open>get_lod0_triangle_count\<close> is the same text in OverReducedFinder and TrianglesListMaker.
  First block:
  \<^verbatim>\<open>if hasattr(static_mesh, 'get_num_triangles'):
      return int(static_mesh.get_num_triangles(0))\<close>
\<close>

definition count_via_mesh :: "StaticMesh \<Rightarrow> int outcome \<times> StaticMesh" where
  "count_via_mesh m =
    (case num_triangles m of
       None \<Rightarrow> (Completed, m)
     | Some r \<Rightarrow>
        (let m1 = call GetNumTriangles m in
         case r of Inl e \<Rightarrow> (Raised e, m1) | Inr n \<Rightarrow> (Returned n, m1)))"

text \<open>
  Second block:
  \<^verbatim>\<open>render_data = static_mesh.get_editor_property('render_data') if hasattr(...) else None
  if render_data and hasattr(render_data, 'lods'):
      lods = getattr(render_data, 'lods', [])
      if lods:
          lod0 = lods[0]
          if hasattr(lod0, 'get_num_triangles'):
              return int(lod0.get_num_triangles())\<close>
\<close>

definition count_via_render_data :: "StaticMesh \<Rightarrow> int outcome \<times> StaticMesh" where
  "count_via_render_data m =
    (let m1 = call (GetEditorProperty ''render_data'') m in
     case render_data m of
       Inl e \<Rightarrow> (Raised e, m1)
     | Inr None \<Rightarrow> (Completed, m1)
     | Inr (Some rd) \<Rightarrow>
        (case render_lods rd of
           None \<Rightarrow> (Completed, m1)
         | Some [] \<Rightarrow> (Completed, m1)
         | Some (lod0 # _) \<Rightarrow>
            (case lod0 of
               None \<Rightarrow> (Completed, m1)
             | Some r \<Rightarrow>
                (let m2 = call GetNumTriangles m1 in
                 case r of Inl e \<Rightarrow> (Raised e, m2) | Inr n \<Rightarrow> (Returned n, m2)))))"

definition orf_get_lod0_triangle_count :: "StaticMesh \<Rightarrow> (exn + int) \<times> StaticMesh" where
  "orf_get_lod0_triangle_count static_mesh =
    (case count_via_mesh static_mesh of
       (Returned n, m1) \<Rightarrow> (Inr n, m1)
     | (_, m1) \<Rightarrow>
        (case count_via_render_data m1 of
           (Returned n, m2) \<Rightarrow> (Inr n, m2)
         | (_, m2) \<Rightarrow> (Inr (- 1), m2)))"

definition tlm_get_lod0_triangle_count :: "StaticMesh \<Rightarrow> (exn + int) \<times> StaticMesh" where
  "tlm_get_lod0_triangle_count static_mesh =
    (case count_via_mesh static_mesh of
       (Returned n, m1) \<Rightarrow> (Inr n, m1)
     | (_, m1) \<Rightarrow>
        (case count_via_render_data m1 of
           (Returned n, m2) \<Rightarrow> (Inr n, m2)
         | (_, m2) \<Rightarrow> (Inr (- 1), m2)))"

section \<open>percenttriangles: Nanite, rebuild and save, process_mesh\<close>

definition pt_TARGET_PERCENT_UI :: real where "pt_TARGET_PERCENT_UI = 10"
definition pt_ONLY_WHEN_EQUALS_UI :: real where "pt_ONLY_WHEN_EQUALS_UI = 100"
definition pt_EPS_RAW :: real where "pt_EPS_RAW = 1 / 1000"
definition pt_TARGET_PERCENT_RAW :: real where
  "pt_TARGET_PERCENT_RAW = pt_TARGET_PERCENT_UI / 100"
definition pt_ONLY_WHEN_EQUALS_RAW :: real where
  "pt_ONLY_WHEN_EQUALS_RAW = pt_ONLY_WHEN_EQUALS_UI / 100"
definition pt_TRIANGLE_CUTOFF :: int where "pt_TRIANGLE_CUTOFF = 0"
definition pt_APPLY_IF_PERCENT_EQ_FULL :: bool where "pt_APPLY_IF_PERCENT_EQ_FULL = True"
definition pt_SKIP_IF_ALREADY_BELOW_TARGET :: bool where
  "pt_SKIP_IF_ALREADY_BELOW_TARGET = True"

text \<open>
  \<open>ensure_nanite_disabled\<close> returns \<open>(was_enabled, is_enabled_after, changed)\<close>. Its three
  locals start as False and keep what a block assigned before it raised, so each block
  is given the locals and hands them on. First block, closed by \<open>except AttributeError\<close>:
  \<^verbatim>\<open>was_enabled = bool(static_mesh.is_nanite_enabled())
  if was_enabled:
      static_mesh.set_nanite_enabled(False)
      changed = True
  is_enabled_after = bool(static_mesh.is_nanite_enabled())
  return was_enabled, is_enabled_after, changed\<close>
\<close>

type_synonym nanite_locals = "bool \<times> bool \<times> bool"

definition nanite_via_method ::
    "StaticMesh \<Rightarrow> nanite_locals outcome \<times> nanite_locals \<times> StaticMesh" where
  "nanite_via_method m =
    (let m1 = call IsNaniteEnabled m in
     case is_nanite_enabled m of
       Some e \<Rightarrow> (Raised e, (False, False, False), m1)
     | None \<Rightarrow>
        (let was_enabled = nanite_enabled m in
         if was_enabled then
           (let m2 = call SetNaniteEnabled m1 in
            case set_nanite_enabled m of
              Some e \<Rightarrow> (Raised e, (was_enabled, False, False), m2)
            | None \<Rightarrow>
               (let m3 = call IsNaniteEnabled (m2\<lparr>nanite_enabled := False\<rparr>);
                    r = (was_enabled, nanite_enabled m3, True)
                in (Returned r, r, m3)))
         else
           (let m3 = call IsNaniteEnabled m1;
                r = (was_enabled, nanite_enabled m3, False)
            in (Returned r, r, m3))))"

text \<open>
  Second block, closed by \<open>except Exception\<close>; the function ends with the same
  \<open>return was_enabled, is_enabled_after, changed\<close> after it, so the value is the locals
  however the block ends:
  \<^verbatim>\<open>nanite_settings = static_mesh.get_editor_property("nanite_settings")
  if nanite_settings:
      was_enabled = bool(getattr(nanite_settings, "enabled", False))
      if was_enabled:
          setattr(nanite_settings, "enabled", False)
          static_mesh.set_editor_property("nanite_settings", nanite_settings)
          changed = True
      is_enabled_after = bool(getattr(nanite_settings, "enabled", False))
  return was_enabled, is_enabled_after, changed\<close>
\<close>

definition nanite_via_settings ::
    "nanite_locals \<Rightarrow> StaticMesh \<Rightarrow> nanite_locals \<times> StaticMesh" where
  "nanite_via_settings locals m =
    (case locals of (was_enabled0, is_enabled_after0, changed0) \<Rightarrow>
     (let m1 = call (GetEditorProperty ''nanite_settings'') m in
      case nanite_settings m of
        Inl e \<Rightarrow> ((was_enabled0, is_enabled_after0, changed0), m1)
      | Inr None \<Rightarrow> ((was_enabled0, is_enabled_after0, changed0), m1)
      | Inr (Some ns) \<Rightarrow>
         (let m2 = call ReadEnabled m1;
              was_enabled = (case enabled ns of Some b \<Rightarrow> b | None \<Rightarrow> False) in
          if was_enabled then
            (let m3 = call WriteEnabled m2 in
             case set_enabled ns of
               Some e \<Rightarrow> ((was_enabled, is_enabled_after0, changed0), m3)
             | None \<Rightarrow>
                (let ns' = ns\<lparr>enabled := Some False\<rparr>;
                     m4 = call (SetEditorProperty ''nanite_settings'') m3 in
                 case set_nanite_settings m of
                   Some e \<Rightarrow> ((was_enabled, is_enabled_after0, changed0), m4)
                 | None \<Rightarrow>
                    (let m5 = call ReadEnabled (m4\<lparr>nanite_settings := Inr (Some ns')\<rparr>)
                     in ((was_enabled, False, True), m5))))
          else
            (let m3 = call ReadEnabled m2
             in ((was_enabled, False, changed0), m3)))))"

definition ensure_nanite_disabled ::
    "StaticMesh \<Rightarrow> (exn + nanite_locals) \<times> StaticMesh" where
  "ensure_nanite_disabled static_mesh =
    (case nanite_via_method static_mesh of
       (Returned r, _, m1) \<Rightarrow> (Inr r, m1)
     | (Raised e, locals, m1) \<Rightarrow>
        (if e = AttributeError
         then (case nanite_via_settings locals m1 of (r, m2) \<Rightarrow> (Inr r, m2))
         else (Inl e, m1))
     | (Completed, locals, m1) \<Rightarrow>
        (case nanite_via_settings locals m1 of (r, m2) \<Rightarrow> (Inr r, m2)))"

text \<open>
  One attempt of percenttriangles' \<open>build_and_save\<close>:
  \<^verbatim>\<open>try:
      if hasattr(obj, 'method'):
          obj.method(...)
          build_ok = True
  except Exception as e:
      _log(f"Warning: ... failed on {static_mesh.get_name()}: {e}")\<close>
  The result says whether the call was made and returned.
\<close>

definition pt_attempt :: "call \<Rightarrow> exn option option \<Rightarrow> StaticMesh \<Rightarrow> bool \<times> StaticMesh" where
  "pt_attempt c api m =
    (case api of
       None \<Rightarrow> (False, m)
     | Some None \<Rightarrow> (True, call c m)
     | Some (Some e) \<Rightarrow> (False, call UnrealLog (call GetName (call c m))))"

text \<open>
  percenttriangles' \<open>build_and_save\<close> returns nothing: a failed rebuild and a failed save
  are logged as warnings and the function goes on. Two calls are outside every \<open>try\<close>
  block, and what they raise leaves the function: the first statement
  \<^verbatim>\<open>smes = unreal.get_editor_subsystem(unreal.StaticMeshEditorSubsystem)\<close>
  and, between the rebuild and the save,
  \<^verbatim>\<open>package = static_mesh.get_outer()  # UPackage\<close>
\<close>

definition pt_build_and_save :: "StaticMesh \<Rightarrow> (exn + unit) \<times> StaticMesh" where
  "pt_build_and_save static_mesh =
    (let m0 = call GetEditorSubsystem static_mesh in
     case get_editor_subsystem static_mesh of
       Some e \<Rightarrow> (Inl e, m0)
     | None \<Rightarrow>
        (let (ok1, m1) = pt_attempt RebuildLods (rebuild_lods static_mesh) m0;
             (ok2, m2) = (if \<not> ok1
                          then pt_attempt BuildStaticMesh (build_static_mesh static_mesh) m1
                          else (ok1, m1));
             (ok3, m3) =
                (if \<not> ok2 then pt_attempt Build (build static_mesh) m2 else (ok2, m2));
             m4 = (if \<not> ok3 then call UnrealLog (call GetName m3) else m3);
             m5 = call GetOuter m4 in
         case get_outer static_mesh of
           Some e \<Rightarrow> (Inl e, m5)
         | None \<Rightarrow>
            (let (_, m6) =
                   pt_attempt SaveLoadedAsset (Some (save_loaded_asset static_mesh)) m5;
                 (_, m7) = pt_attempt SavePackages (save_packages static_mesh) m6
             in (Inr (), m7))))"

text \<open>
  The triangle count as \<open>process_mesh\<close> reads it:
  \<^verbatim>\<open>tri_count = -1
  try:
      if hasattr(static_mesh, 'get_num_triangles'):
          tri_count = static_mesh.get_num_triangles(0)
  except Exception:
      pass\<close>
\<close>

definition pt_tri_count :: "StaticMesh \<Rightarrow> int \<times> StaticMesh" where
  "pt_tri_count m =
     (case num_triangles m of
        None \<Rightarrow> (- 1, m)
      | Some (Inl e) \<Rightarrow> (- 1, call GetNumTriangles m)
      | Some (Inr n) \<Rightarrow> (n, call GetNumTriangles m))"

text \<open>The message of \<open>process_mesh\<close>: one constructor for each f-string of the source,
  with the values the f-string formats.\<close>

datatype pt_message =
    CouldNotRead string
  | AlreadyAtTarget string real
  | SkippedCutoff string int
  | SkippedNotFull string real real
  | WouldChange string real int real bool bool bool
  | Changed string real int real bool bool bool
  | FailedToApply string real real

definition pt_process_mesh ::
    "StaticMesh \<Rightarrow> bool \<Rightarrow> (exn + bool \<times> pt_message) \<times> StaticMesh" where
  "pt_process_mesh static_mesh dry_run =
    (let name = get_name static_mesh;
         m0 = call GetName static_mesh in
     case pt_get_percent_triangles_lod0 m0 of
       (Inl e, m1) \<Rightarrow> (Inl e, m1)
     | (Inr None, m1) \<Rightarrow> (Inr (False, CouldNotRead name), m1)
     | (Inr (Some percent_raw), m1) \<Rightarrow>
        (let percent_ui = percent_raw * 100;
             (tri_count, m2) = pt_tri_count m1 in
         case ensure_nanite_disabled m2 of
           (Inl e, m3) \<Rightarrow> (Inl e, m3)
         | (Inr (was_nanite, is_nanite_after, nanite_changed), m3) \<Rightarrow>
            (if pt_SKIP_IF_ALREADY_BELOW_TARGET
                \<and> \<bar>percent_raw - pt_TARGET_PERCENT_RAW\<bar> \<le> pt_EPS_RAW
             then (Inr (False, AlreadyAtTarget name percent_raw), m3)
             else if pt_TRIANGLE_CUTOFF > 0 \<and> tri_count \<ge> 0 \<and> tri_count \<le> pt_TRIANGLE_CUTOFF
             then (Inr (False, SkippedCutoff name tri_count), m3)
             else if pt_APPLY_IF_PERCENT_EQ_FULL
                \<and> \<bar>percent_raw - pt_ONLY_WHEN_EQUALS_RAW\<bar> > pt_EPS_RAW
             then (Inr (False, SkippedNotFull name percent_ui percent_raw), m3)
             else if dry_run
             then (Inr (True, WouldChange name percent_ui tri_count percent_raw
                                was_nanite is_nanite_after nanite_changed), m3)
             else
               (case pt_set_percent_triangles_lod0 m3 pt_TARGET_PERCENT_RAW of
                  (Inl e, m4) \<Rightarrow> (Inl e, m4)
                | (Inr True, m4) \<Rightarrow>
                   (case pt_build_and_save m4 of
                      (Inl e, m5) \<Rightarrow> (Inl e, m5)
                    | (Inr _, m5) \<Rightarrow>
                       (Inr (True, Changed name percent_ui tri_count percent_raw
                                     was_nanite is_nanite_after nanite_changed), m5))
                | (Inr False, m4) \<Rightarrow>
                   (Inr (False, FailedToApply name percent_ui percent_raw), m4)))))"

section \<open>OverReducedFinder\<close>

definition orf_TARGET_PERCENT_RAW :: real where "orf_TARGET_PERCENT_RAW = 1"

record orf_MeshInfo =
  orf_name :: string
  orf_package_path :: string
  orf_triangle_count :: int
  orf_percent_raw_before :: real
  orf_asset :: StaticMesh
  orf_action :: string
  orf_percent_raw_after :: "real option"

text \<open>One build attempt of OverReducedFinder's \<open>build_and_save\<close>, closed by
  \<open>except Exception: pass\<close>; the result says whether the call was made and returned.\<close>

definition orf_attempt :: "call \<Rightarrow> exn option option \<Rightarrow> StaticMesh \<Rightarrow> bool \<times> StaticMesh" where
  "orf_attempt c api m =
    (case api of
       None \<Rightarrow> (False, m)
     | Some None \<Rightarrow> (True, call c m)
     | Some (Some e) \<Rightarrow> (False, call c m))"

text \<open>
  The save part:
  \<^verbatim>\<open>save_ok = False
  try:
      unreal.EditorAssetLibrary.save_loaded_asset(static_mesh)
      save_ok = True
  except Exception:
      pass
  if not save_ok:
      try:
          package = static_mesh.get_outer()
          if hasattr(unreal, 'EditorLoadingAndSavingUtils'):
              unreal.EditorLoadingAndSavingUtils.save_packages([package], only_dirty=True)
              save_ok = True
      except Exception:
          pass
  return build_ok and save_ok\<close>
  Here \<open>get_outer\<close> is inside the \<open>try\<close> block: if it raises, \<open>save_ok\<close> stays False.
  The first statement of the function is outside every \<open>try\<close> block, and what it raises
  leaves the function:
  \<^verbatim>\<open>smes = unreal.get_editor_subsystem(unreal.StaticMeshEditorSubsystem)\<close>
\<close>

definition orf_build_and_save :: "StaticMesh \<Rightarrow> (exn + bool) \<times> StaticMesh" where
  "orf_build_and_save static_mesh =
    (let m0 = call GetEditorSubsystem static_mesh in
     case get_editor_subsystem static_mesh of
       Some e \<Rightarrow> (Inl e, m0)
     | None \<Rightarrow>
        (let (ok1, m1) = orf_attempt RebuildLods (rebuild_lods static_mesh) m0;
             (ok2, m2) = (if \<not> ok1
                          then orf_attempt BuildStaticMesh (build_static_mesh static_mesh) m1
                          else (ok1, m1));
             (build_ok, m3) =
                (if \<not> ok2 then orf_attempt Build (build static_mesh) m2 else (ok2, m2));
             (save1, m4) =
                orf_attempt SaveLoadedAsset (Some (save_loaded_asset static_mesh)) m3;
             (save_ok, m5) =
                (if \<not> save1
                 then (case get_outer static_mesh of
                         Some e \<Rightarrow> (False, call GetOuter m4)
                       | None \<Rightarrow>
                          orf_attempt SavePackages (save_packages static_mesh)
                            (call GetOuter m4))
                 else (save1, m4))
         in (Inr (build_ok \<and> save_ok), m5)))"

definition is_over_reduced :: "real option \<Rightarrow> real \<Rightarrow> bool" where
  "is_over_reduced percent_raw reduction_threshold_raw =
    (case percent_raw of
       None \<Rightarrow> False
     | Some p \<Rightarrow> p < reduction_threshold_raw)"

text \<open>\<open>str.lower\<close> on the ASCII letters, and \<open>token.lower() in package_path.lower()\<close>.\<close>

definition lower_char :: "char \<Rightarrow> char" where
  "lower_char c =
    (let n = (of_char c :: nat) in if 65 \<le> n \<and> n \<le> 90 then char_of (n + 32) else c)"

definition lower :: "string \<Rightarrow> string" where
  "lower s = map lower_char s"

definition has_building_token :: "string \<Rightarrow> string \<Rightarrow> bool" where
  "has_building_token package_path token = sublist (lower token) (lower package_path)"

text \<open>What the asset registry hands out: \<open>a.get_asset()\<close> raises or gives an object,
  which is a static mesh or something else.\<close>

datatype uobject = StaticMeshObject StaticMesh | OtherObject

type_synonym asset_data = "exn + uobject"

fun orf_iter_static_meshes :: "asset_data list \<Rightarrow> StaticMesh list" where
  "orf_iter_static_meshes [] = []"
| "orf_iter_static_meshes (Inr (StaticMeshObject sm) # assets) =
     sm # orf_iter_static_meshes assets"
| "orf_iter_static_meshes (_ # assets) = orf_iter_static_meshes assets"

text \<open>The \<open>for\<close> loop of \<open>collect_candidates\<close>, with \<open>results\<close> as it stands so far.\<close>

fun orf_collect_loop ::
    "real \<Rightarrow> int \<Rightarrow> string \<Rightarrow> StaticMesh list \<Rightarrow> orf_MeshInfo list
      \<Rightarrow> exn + orf_MeshInfo list" where
  "orf_collect_loop reduction_threshold_raw tri_threshold building_token [] results =
     Inr results"
| "orf_collect_loop reduction_threshold_raw tri_threshold building_token (sm # rest) results =
    (let name = get_name sm;
         package_path = get_path_name sm;
         sm1 = call GetPathName (call GetName sm) in
     if \<not> has_building_token package_path building_token
     then orf_collect_loop reduction_threshold_raw tri_threshold building_token rest results
     else
       (case orf_get_lod0_triangle_count sm1 of
          (Inl e, sm2) \<Rightarrow> Inl e
        | (Inr tri_count, sm2) \<Rightarrow>
           (case orf_get_percent_triangles_lod0 sm2 of
              (Inl e, sm3) \<Rightarrow> Inl e
            | (Inr pct_raw, sm3) \<Rightarrow>
               (if tri_count < 0
                then orf_collect_loop reduction_threshold_raw tri_threshold building_token
                       rest results
                else if is_over_reduced pct_raw reduction_threshold_raw
                        \<and> tri_count < tri_threshold
                then orf_collect_loop reduction_threshold_raw tri_threshold building_token rest
                       (results @
                        [\<lparr> orf_name = name, orf_package_path = package_path,
                           orf_triangle_count = tri_count,
                           orf_percent_raw_before =
                             (case pct_raw of Some p \<Rightarrow> p | None \<Rightarrow> 0),
                           orf_asset = sm3, orf_action = ''FOUND'',
                           orf_percent_raw_after = None \<rparr>])
                else orf_collect_loop reduction_threshold_raw tri_threshold building_token
                       rest results))))"

definition orf_collect_candidates ::
    "asset_data list \<Rightarrow> real \<Rightarrow> int \<Rightarrow> string \<Rightarrow> exn + orf_MeshInfo list" where
  "orf_collect_candidates assets reduction_threshold_raw tri_threshold building_token =
     orf_collect_loop reduction_threshold_raw tri_threshold building_token
       (orf_iter_static_meshes assets) []"

text \<open>\<open>process_mesh\<close> updates the record in place and, through \<open>mesh_info.asset\<close>, the
  mesh; the model returns the updated record, which holds the updated mesh.\<close>

definition orf_process_mesh ::
    "orf_MeshInfo \<Rightarrow> bool \<Rightarrow> (exn + bool) \<times> orf_MeshInfo" where
  "orf_process_mesh mesh_info dry_run =
    (if dry_run
     then (Inr True, mesh_info\<lparr>orf_action := ''DRY-RUN'',
                               orf_percent_raw_after := Some orf_TARGET_PERCENT_RAW\<rparr>)
     else
       (case orf_set_percent_triangles_lod0 (orf_asset mesh_info) orf_TARGET_PERCENT_RAW of
          (Inl e, a1) \<Rightarrow> (Inl e, mesh_info\<lparr>orf_asset := a1\<rparr>)
        | (Inr True, a1) \<Rightarrow>
           (case orf_build_and_save a1 of
              (Inl e, a2) \<Rightarrow> (Inl e, mesh_info\<lparr>orf_asset := a2\<rparr>)
            | (Inr True, a2) \<Rightarrow>
               (Inr True, mesh_info\<lparr>orf_asset := a2, orf_action := ''FIXED'',
                                    orf_percent_raw_after := Some orf_TARGET_PERCENT_RAW\<rparr>)
            | (Inr False, a2) \<Rightarrow>
               (Inr False, mesh_info\<lparr>orf_asset := a2, orf_action := ''SAVE-FAIL''\<rparr>))
        | (Inr False, a1) \<Rightarrow>
           (Inr False, mesh_info\<lparr>orf_asset := a1, orf_action := ''SET-FAIL''\<rparr>)))"

section \<open>TrianglesListMaker\<close>

definition tlm_EPS_RAW :: real where "tlm_EPS_RAW = 5 / 10000"

record tlm_MeshInfo =
  tlm_name :: string
  tlm_package_path :: string
  tlm_triangle_count :: int
  tlm_percent_raw :: real
  tlm_nanite_enabled :: bool
  tlm_asset :: StaticMesh

definition is_unreduced :: "real option \<Rightarrow> real \<Rightarrow> bool" where
  "is_unreduced percent_raw min_raw =
    (case percent_raw of
       None \<Rightarrow> False
     | Some p \<Rightarrow> p + tlm_EPS_RAW \<ge> min_raw)"

fun tlm_iter_static_meshes :: "asset_data list \<Rightarrow> StaticMesh list" where
  "tlm_iter_static_meshes [] = []"
| "tlm_iter_static_meshes (Inr (StaticMeshObject sm) # assets) =
     sm # tlm_iter_static_meshes assets"
| "tlm_iter_static_meshes (_ # assets) = tlm_iter_static_meshes assets"

text \<open>
  The Nanite flag as \<open>collect_candidates\<close> reads it:
  \<^verbatim>\<open>try:
      nanite_state = bool(sm.is_nanite_enabled())
  except Exception:
      nanite_state = False
      try:
          nanite_settings = sm.get_editor_property('nanite_settings')
          if nanite_settings:
              nanite_state = bool(getattr(nanite_settings, 'enabled', False))
      except Exception:
          pass\<close>
\<close>

definition tlm_nanite_state :: "StaticMesh \<Rightarrow> bool \<times> StaticMesh" where
  "tlm_nanite_state sm =
    (let m1 = call IsNaniteEnabled sm in
     case is_nanite_enabled sm of
       None \<Rightarrow> (nanite_enabled sm, m1)
     | Some e \<Rightarrow>
        (let m2 = call (GetEditorProperty ''nanite_settings'') m1 in
         case nanite_settings sm of
           Inl e' \<Rightarrow> (False, m2)
         | Inr None \<Rightarrow> (False, m2)
         | Inr (Some ns) \<Rightarrow>
            ((case enabled ns of Some b \<Rightarrow> b | None \<Rightarrow> False), call ReadEnabled m2)))"

fun tlm_collect_loop ::
    "int \<Rightarrow> real \<Rightarrow> StaticMesh list \<Rightarrow> tlm_MeshInfo list \<Rightarrow> exn + tlm_MeshInfo list" where
  "tlm_collect_loop tri_threshold unreduced_min_raw [] results = Inr results"
| "tlm_collect_loop tri_threshold unreduced_min_raw (sm # rest) results =
    (let name = get_name sm;
         sm1 = call GetName sm in
     case tlm_get_lod0_triangle_count sm1 of
       (Inl e, sm2) \<Rightarrow> Inl e
     | (Inr tri_count, sm2) \<Rightarrow>
        (case tlm_get_percent_triangles_lod0 sm2 of
           (Inl e, sm3) \<Rightarrow> Inl e
         | (Inr pct_raw, sm3) \<Rightarrow>
            (case tlm_nanite_state sm3 of (nanite_state, sm4) \<Rightarrow>
              (if tri_count < 0 \<or> tri_count < tri_threshold
               then tlm_collect_loop tri_threshold unreduced_min_raw rest results
               else if is_unreduced pct_raw unreduced_min_raw
               then tlm_collect_loop tri_threshold unreduced_min_raw rest
                      (results @
                       [\<lparr> tlm_name = name, tlm_package_path = get_path_name sm,
                          tlm_triangle_count = tri_count,
                          tlm_percent_raw = (case pct_raw of Some p \<Rightarrow> p | None \<Rightarrow> 1),
                          tlm_nanite_enabled = nanite_state,
                          tlm_asset = call GetPathName sm4 \<rparr>])
               else tlm_collect_loop tri_threshold unreduced_min_raw rest results))))"

definition tlm_collect_candidates ::
    "asset_data list \<Rightarrow> int \<Rightarrow> real \<Rightarrow> exn + tlm_MeshInfo list" where
  "tlm_collect_candidates assets tri_threshold unreduced_min_raw =
     tlm_collect_loop tri_threshold unreduced_min_raw (tlm_iter_static_meshes assets) []"

section \<open>Example meshes\<close>

text \<open>A mesh on which every host property and method that the scripts probe is missing
  (the subsystem lookup and \<open>get_outer\<close> return), from which the examples are built.\<close>

definition bare_mesh :: StaticMesh where
  "bare_mesh =
    \<lparr> get_name = ''SM_Test'', get_path_name = ''/Game/Building/SM_Test.SM_Test'',
      lods = Inl AttributeError, set_lods = Some AttributeError,
      source_models = Inl AttributeError, set_source_models = Some AttributeError,
      lod_reduction_settings = Inl AttributeError,
      set_lod_reduction_settings = Some AttributeError,
      num_triangles = None,
      render_data = Inl AttributeError,
      nanite_enabled = False, is_nanite_enabled = Some AttributeError,
      set_nanite_enabled = Some AttributeError,
      nanite_settings = Inl AttributeError, set_nanite_settings = Some AttributeError,
      rebuild_lods = None, build_static_mesh = None, build = None,
      save_loaded_asset = Some HostError, save_packages = None,
      get_outer = None, get_editor_subsystem = None,
      calls = [] \<rparr>"

definition settings_of :: "real \<Rightarrow> ReductionSettings" where
  "settings_of v = \<lparr> percent_triangles = Inr v, set_percent_triangles = None \<rparr>"

definition model_of :: "real \<Rightarrow> SourceModel" where
  "model_of v = \<lparr> reduction_settings = Inr (settings_of v), set_reduction_settings = None \<rparr>"

text \<open>The chain [raises, returns 0.10, returns 0.25]: no property \<open>lods\<close>, a first
  source model at 0.10, and 0.25 from the subsystem.\<close>

definition mesh_raises_010_025 :: StaticMesh where
  "mesh_raises_010_025 =
     bare_mesh\<lparr>source_models := Inr [model_of (1 / 10)],
               lod_reduction_settings := Inr (Some (settings_of (1 / 4)))\<rparr>"

text \<open>No property \<open>lods\<close>, an empty \<open>source_models\<close>, no subsystem.\<close>

definition mesh_no_source_models :: StaticMesh where
  "mesh_no_source_models = bare_mesh\<lparr>source_models := Inr []\<rparr>"

text \<open>No property \<open>lods\<close>; a first source model and subsystem settings at 1.0, both
  writable.\<close>

definition mesh_full :: StaticMesh where
  "mesh_full =
     bare_mesh\<lparr>source_models := Inr [model_of 1], set_source_models := None,
               lod_reduction_settings := Inr (Some (settings_of 1)),
               set_lod_reduction_settings := None\<rparr>"

text \<open>A first LOD at 0.5 and a first source model at 0.10, both writable; no subsystem.\<close>

definition mesh_lods_first :: StaticMesh where
  "mesh_lods_first =
     bare_mesh\<lparr>lods := Inr [model_of (1 / 2)], set_lods := None,
               source_models := Inr [model_of (1 / 10)], set_source_models := None\<rparr>"

text \<open>The meshes of an example registry: one with a known triangle count and no readable
  ratio, an over-reduced building mesh, one with a readable ratio and no triangle count,
  and a large unreduced mesh with Nanite enabled.\<close>

definition mesh_over_reduced :: StaticMesh where
  "mesh_over_reduced =
     bare_mesh\<lparr>get_name := ''SM_Wall'', get_path_name := ''/Game/Buildings/SM_Wall.SM_Wall'',
               source_models := Inr [model_of (5 / 100)], num_triangles := Some (Inr 120)\<rparr>"

definition mesh_unreadable :: StaticMesh where
  "mesh_unreadable = bare_mesh\<lparr>num_triangles := Some (Inr 60000)\<rparr>"

definition mesh_unknown_count :: StaticMesh where
  "mesh_unknown_count = bare_mesh\<lparr>source_models := Inr [model_of 1]\<rparr>"

definition mesh_unreduced :: StaticMesh where
  "mesh_unreduced =
     bare_mesh\<lparr>get_name := ''SM_Tower'', source_models := Inr [model_of 1],
               num_triangles := Some (Inr 60000), nanite_enabled := True,
               is_nanite_enabled := None, set_nanite_enabled := None\<rparr>"

definition example_assets :: "asset_data list" where
  "example_assets =
     [Inl HostError, Inr OtherObject, Inr (StaticMeshObject mesh_unreadable),
      Inr (StaticMeshObject mesh_over_reduced), Inr (StaticMeshObject mesh_unknown_count),
      Inr (StaticMeshObject mesh_unreduced)]"

text \<open>Two meshes with Nanite enabled through \<open>is_nanite_enabled\<close> and
  \<open>set_nanite_enabled\<close>: one at 1.0 (a dry run would change it), one at 0.5 (skipped).\<close>

definition mesh_nanite_full :: StaticMesh where
  "mesh_nanite_full =
     bare_mesh\<lparr>source_models := Inr [model_of 1], nanite_enabled := True,
               is_nanite_enabled := None, set_nanite_enabled := None\<rparr>"

definition mesh_nanite_half :: StaticMesh where
  "mesh_nanite_half =
     bare_mesh\<lparr>source_models := Inr [model_of (1 / 2)], nanite_enabled := True,
               is_nanite_enabled := None, set_nanite_enabled := None\<rparr>"



text \<open>The writable mesh at 1.0 again, in an editor where the subsystem lookup that
  \<open>build_and_save\<close> makes outside any \<open>try\<close> block raises.\<close>

definition mesh_lookup_raises :: StaticMesh where
  "mesh_lookup_raises = mesh_full\<lparr>get_editor_subsystem := Some HostError\<rparr>"

definition info_of :: "StaticMesh \<Rightarrow> orf_MeshInfo" where
  "info_of sm =
     \<lparr> orf_name = get_name sm, orf_package_path = get_path_name sm,
       orf_triangle_count = 120, orf_percent_raw_before = 5 / 100,
       orf_asset = sm, orf_action = ''FOUND'', orf_percent_raw_after = None \<rparr>"

section \<open>The read chain\<close>

lemmas read_defs = read_via_lods_def read_via_source_models_def read_via_subsystem_def call_def Let_def
lemmas write_defs = write_via_lods_def write_via_source_models_def write_via_subsystem_def call_def Let_def

lemma fst_read_via_lods_calls:
  "fst (read_via_lods (m\<lparr>calls := cs\<rparr>)) = fst (read_via_lods m)"
  by (simp add: read_defs split: sum.splits list.splits)

lemma fst_read_via_source_models_calls:
  "fst (read_via_source_models (m\<lparr>calls := cs\<rparr>)) = fst (read_via_source_models m)"
  by (simp add: read_defs split: sum.splits list.splits)

lemma fst_read_via_subsystem_calls:
  "fst (read_via_subsystem (m\<lparr>calls := cs\<rparr>)) = fst (read_via_subsystem m)"
  by (simp add: read_defs split: sum.splits option.splits)

lemma snd_read_via_lods:
  "\<exists>cs. snd (read_via_lods m) = m\<lparr>calls := calls m @ cs\<rparr> \<and>
     set cs \<subseteq> {GetEditorProperty ''lods'', GetEditorProperty ''reduction_settings'', ReadPercentTriangles}"
  by (auto simp: read_defs split: sum.splits list.splits)

lemma snd_read_via_source_models:
  "\<exists>cs. snd (read_via_source_models m) = m\<lparr>calls := calls m @ cs\<rparr> \<and>
     set cs \<subseteq> {GetEditorProperty ''source_models'', GetEditorProperty ''reduction_settings'', ReadPercentTriangles}"
  by (auto simp: read_defs split: sum.splits list.splits)

lemma snd_read_via_subsystem:
  "\<exists>cs. snd (read_via_subsystem m) = m\<lparr>calls := calls m @ cs\<rparr> \<and>
     set cs \<subseteq> {GetEditorSubsystem, GetLodReductionSettings, ReadPercentTriangles}"
  by (auto simp: read_defs split: sum.splits option.splits)

lemma pt_get_unfold:
  "pt_get_percent_triangles_lod0 m =
    (let m1 = snd (read_via_lods m); m2 = snd (read_via_source_models m1); m3 = snd (read_via_subsystem m2) in
     case fst (read_via_lods m) of Returned v \<Rightarrow> (Inr (Some v), m1)
     | _ \<Rightarrow> (case fst (read_via_source_models m) of Returned v \<Rightarrow> (Inr (Some v), m2)
        | _ \<Rightarrow> (case fst (read_via_subsystem m) of Returned v \<Rightarrow> (Inr (Some v), m3)
           | _ \<Rightarrow> (Inr None, m3))))"
proof -
  let ?m1 = "snd (read_via_lods m)"
  let ?m2 = "snd (read_via_source_models ?m1)"
  obtain c1 where c1: "?m1 = m\<lparr>calls := calls m @ c1\<rparr>"
    using snd_read_via_lods by blast
  obtain c2 where c2: "?m2 = ?m1\<lparr>calls := calls ?m1 @ c2\<rparr>"
    using snd_read_via_source_models by blast
  have f2: "fst (read_via_source_models ?m1) = fst (read_via_source_models m)"
    by (subst c1) (rule fst_read_via_source_models_calls)
  have "fst (read_via_subsystem ?m2) = fst (read_via_subsystem ?m1)"
    by (subst c2) (rule fst_read_via_subsystem_calls)
  also have "\<dots> = fst (read_via_subsystem m)"
    by (subst c1) (rule fst_read_via_subsystem_calls)
  finally have f3: "fst (read_via_subsystem ?m2) = fst (read_via_subsystem m)" .
  show ?thesis
    unfolding pt_get_percent_triangles_lod0_def Let_def
    by (simp add: case_prod_beta f2 f3 split: outcome.splits)
qed

lemma orf_get_eq_pt: "orf_get_percent_triangles_lod0 = pt_get_percent_triangles_lod0"
  by (rule ext) (simp add: orf_get_percent_triangles_lod0_def pt_get_percent_triangles_lod0_def)

lemma tlm_get_eq_pt: "tlm_get_percent_triangles_lod0 = pt_get_percent_triangles_lod0"
  by (rule ext) (simp add: tlm_get_percent_triangles_lod0_def pt_get_percent_triangles_lod0_def)

lemma fst_pt_get_cases:
  "fst (pt_get_percent_triangles_lod0 m) =
    (case fst (read_via_lods m) of Returned v \<Rightarrow> Inr (Some v)
     | _ \<Rightarrow> (case fst (read_via_source_models m) of Returned v \<Rightarrow> Inr (Some v)
        | _ \<Rightarrow> (case fst (read_via_subsystem m) of Returned v \<Rightarrow> Inr (Some v)
           | _ \<Rightarrow> Inr None)))"
  by (simp add: pt_get_unfold Let_def split: outcome.splits)

lemma less_three: "(k::nat) < 3 \<longleftrightarrow> k = 0 \<or> k = 1 \<or> k = 2"
  by auto

text \<open>
  Claim C1. Whatever the mesh, if the N-th strategy of the read chain is the first whose
  block returns a value (the earlier ones raise or run to their end without a value), then
  \<open>get_percent_triangles_lod0\<close> of percenttriangles and of OverReducedFinder returns that
  value; and if no strategy returns a value, it returns \<open>None\<close>. A strategy's outcome
  does not depend on the call record, so it is taken on the mesh as given.
\<close>

theorem get_returns_first_value:
  "(N < length read_chain \<and> fst ((read_chain ! N) m) = Returned v
      \<and> (\<forall>k<N. \<forall>w. fst ((read_chain ! k) m) \<noteq> Returned w)
     \<longrightarrow> fst (pt_get_percent_triangles_lod0 m) = Inr (Some v)
       \<and> fst (orf_get_percent_triangles_lod0 m) = Inr (Some v))
   \<and> ((\<forall>k<length read_chain. \<forall>w. fst ((read_chain ! k) m) \<noteq> Returned w)
     \<longrightarrow> fst (pt_get_percent_triangles_lod0 m) = Inr None
       \<and> fst (orf_get_percent_triangles_lod0 m) = Inr None)"
proof (intro conjI impI)
  assume a: "N < length read_chain \<and> fst ((read_chain ! N) m) = Returned v
      \<and> (\<forall>k<N. \<forall>w. fst ((read_chain ! k) m) \<noteq> Returned w)"
  then have "N = 0 \<or> N = 1 \<or> N = 2"
    by (auto simp: read_chain_def)
  then have "fst (pt_get_percent_triangles_lod0 m) = Inr (Some v)"
  proof (elim disjE)
    assume "N = 0"
    with a show ?thesis by (simp add: read_chain_def fst_pt_get_cases)
  next
    assume "N = 1"
    with a have "fst (read_via_source_models m) = Returned v"
      and "\<forall>w. fst (read_via_lods m) \<noteq> Returned w"
      by (simp_all add: read_chain_def)
    then show ?thesis by (simp add: fst_pt_get_cases split: outcome.splits)
  next
    assume n: "N = 2"
    with a have "fst (read_via_subsystem m) = Returned v" by (simp add: read_chain_def)
    moreover from a n have "\<forall>w. fst (read_via_lods m) \<noteq> Returned w"
      by (auto simp: read_chain_def dest: spec[of _ 0])
    moreover from a n have "\<forall>w. fst (read_via_source_models m) \<noteq> Returned w"
      by (auto simp: read_chain_def dest: spec[of _ 1])
    ultimately show ?thesis by (simp add: fst_pt_get_cases split: outcome.splits)
  qed
  then show "fst (pt_get_percent_triangles_lod0 m) = Inr (Some v)"
    and "fst (orf_get_percent_triangles_lod0 m) = Inr (Some v)"
    by (simp_all add: orf_get_eq_pt)
next
  assume a: "\<forall>k<length read_chain. \<forall>w. fst ((read_chain ! k) m) \<noteq> Returned w"
  from a have "\<forall>w. fst (read_via_lods m) \<noteq> Returned w"
    by (auto simp: read_chain_def dest: spec[of _ 0])
  moreover from a have "\<forall>w. fst (read_via_source_models m) \<noteq> Returned w"
    by (auto simp: read_chain_def dest: spec[of _ 1])
  moreover from a have "\<forall>w. fst (read_via_subsystem m) \<noteq> Returned w"
    by (auto simp: read_chain_def dest: spec[of _ 2])
  ultimately have "fst (pt_get_percent_triangles_lod0 m) = Inr None"
    by (simp add: fst_pt_get_cases split: outcome.splits)
  then show "fst (pt_get_percent_triangles_lod0 m) = Inr None"
    and "fst (orf_get_percent_triangles_lod0 m) = Inr None"
    by (simp_all add: orf_get_eq_pt)
qed

lemmas example_defs = bare_mesh_def model_of_def settings_of_def

text \<open>The two chains of the example: [raises, returns 0.10, returns 0.25] gives 0.10, and
  [raises, raises, raises] gives \<open>None\<close>.\<close>

theorem get_returns_first_value_witness:
  "fst (pt_get_percent_triangles_lod0 mesh_raises_010_025) = Inr (Some (1 / 10))
   \<and> fst (orf_get_percent_triangles_lod0 mesh_raises_010_025) = Inr (Some (1 / 10))
   \<and> fst (read_via_lods mesh_raises_010_025) = Raised AttributeError
   \<and> fst (read_via_source_models mesh_raises_010_025) = Returned (1 / 10)
   \<and> fst (read_via_subsystem mesh_raises_010_025) = Returned (1 / 4)
   \<and> fst (pt_get_percent_triangles_lod0 bare_mesh) = Inr None
   \<and> fst (orf_get_percent_triangles_lod0 bare_mesh) = Inr None
   \<and> fst (read_via_lods bare_mesh) = Raised AttributeError
   \<and> fst (read_via_source_models bare_mesh) = Raised AttributeError
   \<and> fst (read_via_subsystem bare_mesh) = Raised AttributeError"
proof -
  have s1: "fst (read_via_lods mesh_raises_010_025) = Raised AttributeError"
    by (simp add: mesh_raises_010_025_def example_defs read_defs)
  have s2: "fst (read_via_source_models mesh_raises_010_025) = Returned (1 / 10)"
    by (simp add: mesh_raises_010_025_def example_defs read_defs)
  have s3: "fst (read_via_subsystem mesh_raises_010_025) = Returned (1 / 4)"
    by (simp add: mesh_raises_010_025_def example_defs read_defs)
  have b1: "fst (read_via_lods bare_mesh) = Raised AttributeError"
    by (simp add: example_defs read_defs)
  have b2: "fst (read_via_source_models bare_mesh) = Raised AttributeError"
    by (simp add: example_defs read_defs)
  have b3: "fst (read_via_subsystem bare_mesh) = Raised AttributeError"
    by (simp add: example_defs read_defs)
  have h1: "1 < length read_chain \<and> fst ((read_chain ! 1) mesh_raises_010_025) = Returned (1 / 10)
      \<and> (\<forall>k<1. \<forall>w. fst ((read_chain ! k) mesh_raises_010_025) \<noteq> Returned w)"
    by (simp add: read_chain_def s1 s2)
  have h2: "\<forall>k<length read_chain. \<forall>w. fst ((read_chain ! k) bare_mesh) \<noteq> Returned w"
    by (simp add: read_chain_def less_three b1 b2 b3 numeral_3_eq_3 less_Suc_eq)
  from get_returns_first_value [of 1 mesh_raises_010_025 "1 / 10"] h1
  have r1: "fst (pt_get_percent_triangles_lod0 mesh_raises_010_025) = Inr (Some (1 / 10))
       \<and> fst (orf_get_percent_triangles_lod0 mesh_raises_010_025) = Inr (Some (1 / 10))"
    by blast
  from get_returns_first_value [of 0 bare_mesh 0] h2
  have r2: "fst (pt_get_percent_triangles_lod0 bare_mesh) = Inr None
       \<and> fst (orf_get_percent_triangles_lod0 bare_mesh) = Inr None"
    by blast
  show ?thesis using r1 r2 s1 s2 s3 b1 b2 b3 by simp
qed

lemma snd_pt_get:
  "\<exists>cs. snd (pt_get_percent_triangles_lod0 m) = m\<lparr>calls := calls m @ cs\<rparr>"
proof -
  let ?m1 = "snd (read_via_lods m)"
  let ?m2 = "snd (read_via_source_models ?m1)"
  let ?m3 = "snd (read_via_subsystem ?m2)"
  obtain c1 where c1: "?m1 = m\<lparr>calls := calls m @ c1\<rparr>"
    using snd_read_via_lods by blast
  obtain c2 where c2: "?m2 = ?m1\<lparr>calls := calls ?m1 @ c2\<rparr>"
    using snd_read_via_source_models by blast
  obtain c3 where c3: "?m3 = ?m2\<lparr>calls := calls ?m2 @ c3\<rparr>"
    using snd_read_via_subsystem by blast
  have m2: "?m2 = m\<lparr>calls := calls m @ (c1 @ c2)\<rparr>"
    by (subst c2, subst (1 2) c1) simp
  have m3: "?m3 = m\<lparr>calls := calls m @ (c1 @ c2 @ c3)\<rparr>"
    by (subst c3, subst (1 2) m2) simp
  have "snd (pt_get_percent_triangles_lod0 m) = ?m1
      \<or> snd (pt_get_percent_triangles_lod0 m) = ?m2
      \<or> snd (pt_get_percent_triangles_lod0 m) = ?m3"
    by (simp add: pt_get_unfold Let_def split: outcome.splits)
  with c1 m2 m3 show ?thesis by metis
qed

lemma fst_pt_get_calls:
  "fst (pt_get_percent_triangles_lod0 (m\<lparr>calls := cs\<rparr>)) = fst (pt_get_percent_triangles_lod0 m)"
  by (simp only: fst_pt_get_cases fst_read_via_lods_calls fst_read_via_source_models_calls
        fst_read_via_subsystem_calls)

text \<open>
  Claim C6. A read leaves the mesh as it was, the call record apart, and its result does not
  depend on the call record: a second read on the state the first one left returns what
  the first returned (percenttriangles and TrianglesListMaker).
\<close>

theorem get_twice_same_result:
  "fst (pt_get_percent_triangles_lod0 (snd (pt_get_percent_triangles_lod0 m)))
     = fst (pt_get_percent_triangles_lod0 m)
   \<and> fst (tlm_get_percent_triangles_lod0 (snd (tlm_get_percent_triangles_lod0 m)))
     = fst (tlm_get_percent_triangles_lod0 m)
   \<and> (\<exists>cs. snd (pt_get_percent_triangles_lod0 m) = m\<lparr>calls := calls m @ cs\<rparr>)
   \<and> (\<exists>cs. snd (tlm_get_percent_triangles_lod0 m) = m\<lparr>calls := calls m @ cs\<rparr>)"
proof -
  obtain cs where cs: "snd (pt_get_percent_triangles_lod0 m) = m\<lparr>calls := calls m @ cs\<rparr>"
    using snd_pt_get by blast
  have "fst (pt_get_percent_triangles_lod0 (snd (pt_get_percent_triangles_lod0 m)))
     = fst (pt_get_percent_triangles_lod0 m)"
    by (subst cs) (rule fst_pt_get_calls)
  with cs show ?thesis by (auto simp: tlm_get_eq_pt)
qed

section \<open>The write chain\<close>

lemma fst_write_via_lods_calls:
  "fst (write_via_lods v (m\<lparr>calls := cs\<rparr>)) = fst (write_via_lods v m)"
  by (simp add: write_defs split: sum.splits list.splits option.splits)

lemma fst_write_via_source_models_calls:
  "fst (write_via_source_models v (m\<lparr>calls := cs\<rparr>)) = fst (write_via_source_models v m)"
  by (simp add: write_defs split: sum.splits list.splits option.splits)

lemma fst_write_via_subsystem_calls:
  "fst (write_via_subsystem v (m\<lparr>calls := cs\<rparr>)) = fst (write_via_subsystem v m)"
  by (simp add: write_defs split: sum.splits option.splits)

lemma write_via_lods_Returned: "fst (write_via_lods v m) = Returned b \<Longrightarrow> b"
  by (auto simp: write_defs split: sum.splits list.splits option.splits)

lemma write_via_source_models_Returned: "fst (write_via_source_models v m) = Returned b \<Longrightarrow> b"
  by (auto simp: write_defs split: sum.splits list.splits option.splits)

lemma write_via_subsystem_Returned: "fst (write_via_subsystem v m) = Returned b \<Longrightarrow> b"
  by (auto simp: write_defs split: sum.splits option.splits)

lemma write_via_lods_failed_frame:
  "fst (write_via_lods v m) \<noteq> Returned True \<Longrightarrow>
   snd (write_via_lods v m) = m\<lparr>calls := calls (snd (write_via_lods v m))\<rparr>"
  by (simp add: write_defs split: sum.splits list.splits option.splits)

lemma write_via_source_models_failed_frame:
  "fst (write_via_source_models v m) \<noteq> Returned True \<Longrightarrow>
   snd (write_via_source_models v m) = m\<lparr>calls := calls (snd (write_via_source_models v m))\<rparr>"
  by (simp add: write_defs split: sum.splits list.splits option.splits)

lemma write_via_subsystem_failed_frame:
  "fst (write_via_subsystem v m) \<noteq> Returned True \<Longrightarrow>
   snd (write_via_subsystem v m) = m\<lparr>calls := calls (snd (write_via_subsystem v m))\<rparr>"
  by (simp add: write_defs split: sum.splits option.splits)

lemma calls_write_via_lods:
  "\<exists>cs. calls (snd (write_via_lods v m)) = calls m @ cs \<and>
     set cs \<subseteq> {GetEditorProperty ''lods'', GetEditorProperty ''reduction_settings'',
       SetEditorProperty ''percent_triangles'', SetEditorProperty ''reduction_settings'',
       SetEditorProperty ''lods''}"
  by (simp add: write_defs split: sum.splits list.splits option.splits)

lemma calls_write_via_source_models:
  "\<exists>cs. calls (snd (write_via_source_models v m)) = calls m @ cs \<and>
     set cs \<subseteq> {GetEditorProperty ''source_models'', GetEditorProperty ''reduction_settings'',
       SetEditorProperty ''percent_triangles'', SetEditorProperty ''reduction_settings'',
       SetEditorProperty ''source_models''}"
  by (simp add: write_defs split: sum.splits list.splits option.splits)

lemma calls_write_via_subsystem:
  "\<exists>cs. calls (snd (write_via_subsystem v m)) = calls m @ cs \<and>
     set cs \<subseteq> {GetEditorSubsystem, GetLodReductionSettings,
       SetEditorProperty ''percent_triangles'', SetLodReductionSettings}"
  by (simp add: write_defs split: sum.splits option.splits)

text \<open>The write chain, strategy by strategy, each outcome taken on the mesh as given.\<close>

lemma orf_set_unfold:
  "orf_set_percent_triangles_lod0 m v =
    (let m1 = snd (write_via_lods v m);
         m2 = snd (write_via_source_models v m1);
         m3 = snd (write_via_subsystem v m2) in
     case fst (write_via_lods v m) of Returned b \<Rightarrow> (Inr b, m1)
     | _ \<Rightarrow> (case fst (write_via_source_models v m) of Returned b \<Rightarrow> (Inr b, m2)
        | _ \<Rightarrow> (case fst (write_via_subsystem v m) of Returned b \<Rightarrow> (Inr b, m3)
           | _ \<Rightarrow> (Inr False, m3))))"
proof (cases "\<exists>b. fst (write_via_lods v m) = Returned b")
  case True
  then show ?thesis
    by (auto simp: orf_set_percent_triangles_lod0_def Let_def case_prod_beta)
next
  case False
  let ?m1 = "snd (write_via_lods v m)"
  let ?m2 = "snd (write_via_source_models v ?m1)"
  from False have m1: "?m1 = m\<lparr>calls := calls ?m1\<rparr>"
    by (intro write_via_lods_failed_frame) simp
  have f2: "fst (write_via_source_models v ?m1) = fst (write_via_source_models v m)"
    by (subst m1) (rule fst_write_via_source_models_calls)
  have f31: "fst (write_via_subsystem v ?m1) = fst (write_via_subsystem v m)"
    by (subst m1) (rule fst_write_via_subsystem_calls)
  show ?thesis
  proof (cases "\<exists>b. fst (write_via_source_models v m) = Returned b")
    case True
    with False show ?thesis
      by (auto simp: orf_set_percent_triangles_lod0_def Let_def case_prod_beta f2
               split: outcome.splits)
  next
    case F2: False
    with f2 have "fst (write_via_source_models v ?m1) \<noteq> Returned True" by simp
    then have m2: "?m2 = ?m1\<lparr>calls := calls ?m2\<rparr>"
      by (rule write_via_source_models_failed_frame)
    have f3: "fst (write_via_subsystem v ?m2) = fst (write_via_subsystem v m)"
      by (subst m2) (simp only: fst_write_via_subsystem_calls f31)
    from False F2 show ?thesis
      by (auto simp: orf_set_percent_triangles_lod0_def Let_def case_prod_beta f2 f3
               split: outcome.splits)
  qed
qed

lemma fst_orf_set_cases:
  "fst (orf_set_percent_triangles_lod0 m v) =
    (case fst (write_via_lods v m) of Returned b \<Rightarrow> Inr b
     | _ \<Rightarrow> (case fst (write_via_source_models v m) of Returned b \<Rightarrow> Inr b
        | _ \<Rightarrow> (case fst (write_via_subsystem v m) of Returned b \<Rightarrow> Inr b
           | _ \<Rightarrow> Inr False)))"
  by (simp add: orf_set_unfold Let_def split: outcome.splits)

lemma fst_pt_set_eq_orf:
  "fst (pt_set_percent_triangles_lod0 m v) = fst (orf_set_percent_triangles_lod0 m v)"
  by (simp add: pt_set_percent_triangles_lod0_def orf_set_percent_triangles_lod0_def
        case_prod_beta split: outcome.splits)

lemma snd_pt_set_eq_orf:
  "fst (pt_set_percent_triangles_lod0 m v) = Inr True \<Longrightarrow>
   snd (pt_set_percent_triangles_lod0 m v) = snd (orf_set_percent_triangles_lod0 m v)"
  by (simp add: pt_set_percent_triangles_lod0_def orf_set_percent_triangles_lod0_def
        case_prod_beta split: outcome.splits)

lemma read_chain_nth:
  "read_chain ! 0 = read_via_lods" "read_chain ! 1 = read_via_source_models"
  "read_chain ! Suc 0 = read_via_source_models"
  "read_chain ! 2 = read_via_subsystem" "length read_chain = 3"
  by (simp_all add: read_chain_def)

lemma write_chain_nth:
  "write_chain v ! 0 = write_via_lods v" "write_chain v ! 1 = write_via_source_models v"
  "write_chain v ! Suc 0 = write_via_source_models v"
  "write_chain v ! 2 = write_via_subsystem v" "length (write_chain v) = 3"
  by (simp_all add: write_chain_def)

lemma all_less_three: "(\<forall>k<3. P (k::nat)) \<longleftrightarrow> P 0 \<and> P 1 \<and> P 2"
  by (auto simp: less_three)

lemma ex_less_three: "(\<exists>k<3. P (k::nat)) \<longleftrightarrow> P 0 \<or> P 1 \<or> P 2"
  by (auto simp: less_three)

text \<open>
  Claim C2. In percenttriangles, \<open>get_percent_triangles_lod0\<close> and
  \<open>set_percent_triangles_lod0\<close> return on every mesh (the result is never \<open>Inl\<close>, an
  exception raised to the caller); if every strategy of the read chain raises the read
  returns \<open>None\<close>, and if every strategy of the write chain raises the write returns
  False.
\<close>

theorem accessors_never_raise:
  "(\<exists>r. fst (pt_get_percent_triangles_lod0 m) = Inr r)
   \<and> (\<exists>b. fst (pt_set_percent_triangles_lod0 m v) = Inr b)
   \<and> ((\<forall>k<length read_chain. \<exists>e. fst ((read_chain ! k) m) = Raised e)
        \<longrightarrow> fst (pt_get_percent_triangles_lod0 m) = Inr None)
   \<and> ((\<forall>k<length (write_chain v). \<exists>e. fst ((write_chain v ! k) m) = Raised e)
        \<longrightarrow> fst (pt_set_percent_triangles_lod0 m v) = Inr False)"
proof (intro conjI impI)
  show "\<exists>r. fst (pt_get_percent_triangles_lod0 m) = Inr r"
    by (simp add: fst_pt_get_cases split: outcome.splits)
  show "\<exists>b. fst (pt_set_percent_triangles_lod0 m v) = Inr b"
    by (auto simp: fst_pt_set_eq_orf fst_orf_set_cases split: outcome.splits)
next
  assume "\<forall>k<length read_chain. \<exists>e. fst ((read_chain ! k) m) = Raised e"
  then have "(\<exists>e. fst (read_via_lods m) = Raised e)
      \<and> (\<exists>e. fst (read_via_source_models m) = Raised e)
      \<and> (\<exists>e. fst (read_via_subsystem m) = Raised e)"
    by (simp add: read_chain_nth all_less_three)
  then show "fst (pt_get_percent_triangles_lod0 m) = Inr None"
    by (auto simp: fst_pt_get_cases)
next
  assume "\<forall>k<length (write_chain v). \<exists>e. fst ((write_chain v ! k) m) = Raised e"
  then have "(\<exists>e. fst (write_via_lods v m) = Raised e)
      \<and> (\<exists>e. fst (write_via_source_models v m) = Raised e)
      \<and> (\<exists>e. fst (write_via_subsystem v m) = Raised e)"
    by (simp add: write_chain_nth all_less_three)
  then show "fst (pt_set_percent_triangles_lod0 m v) = Inr False"
    by (auto simp: fst_pt_set_eq_orf fst_orf_set_cases)
qed

theorem accessors_never_raise_witness:
  "fst (read_via_lods bare_mesh) = Raised AttributeError
   \<and> fst (read_via_source_models bare_mesh) = Raised AttributeError
   \<and> fst (read_via_subsystem bare_mesh) = Raised AttributeError
   \<and> fst (write_via_lods (1 / 10) bare_mesh) = Raised AttributeError
   \<and> fst (write_via_source_models (1 / 10) bare_mesh) = Raised AttributeError
   \<and> fst (write_via_subsystem (1 / 10) bare_mesh) = Raised AttributeError
   \<and> fst (pt_get_percent_triangles_lod0 bare_mesh) = Inr None
   \<and> fst (pt_set_percent_triangles_lod0 bare_mesh (1 / 10)) = Inr False"
proof -
  have r: "fst (read_via_lods bare_mesh) = Raised AttributeError"
    "fst (read_via_source_models bare_mesh) = Raised AttributeError"
    "fst (read_via_subsystem bare_mesh) = Raised AttributeError"
    by (simp_all add: example_defs read_defs)
  have w: "fst (write_via_lods (1 / 10) bare_mesh) = Raised AttributeError"
    "fst (write_via_source_models (1 / 10) bare_mesh) = Raised AttributeError"
    "fst (write_via_subsystem (1 / 10) bare_mesh) = Raised AttributeError"
    by (simp_all add: example_defs write_defs)
  have h1: "\<forall>k<length read_chain. \<exists>e. fst ((read_chain ! k) bare_mesh) = Raised e"
    by (simp add: read_chain_nth all_less_three r)
  have h2: "\<forall>k<length (write_chain (1 / 10)).
      \<exists>e. fst ((write_chain (1 / 10) ! k) bare_mesh) = Raised e"
    by (simp add: write_chain_nth all_less_three w)
  from accessors_never_raise [of bare_mesh "1 / 10"] h1 h2
  have "fst (pt_get_percent_triangles_lod0 bare_mesh) = Inr None
      \<and> fst (pt_set_percent_triangles_lod0 bare_mesh (1 / 10)) = Inr False"
    by blast
  with r w show ?thesis by simp
qed

text \<open>
  Claim C3 fails as stated. On a mesh with no property \<open>lods\<close>, an empty
  \<open>source_models\<close> and no subsystem, the second strategy completes without raising (its
  guard \<open>if source_models:\<close> is false), the chain does not stop there, and the write
  returns False although not all strategies raised.
\<close>

theorem set_false_without_raise:
  "fst (write_via_lods (1 / 10) mesh_no_source_models) = Raised AttributeError
   \<and> fst (write_via_source_models (1 / 10) mesh_no_source_models) = Completed
   \<and> fst (write_via_subsystem (1 / 10) mesh_no_source_models) = Raised AttributeError
   \<and> fst (pt_set_percent_triangles_lod0 mesh_no_source_models (1 / 10)) = Inr False
   \<and> fst (orf_set_percent_triangles_lod0 mesh_no_source_models (1 / 10)) = Inr False"
proof -
  have w: "fst (write_via_lods (1 / 10) mesh_no_source_models) = Raised AttributeError"
    "fst (write_via_source_models (1 / 10) mesh_no_source_models) = Completed"
    "fst (write_via_subsystem (1 / 10) mesh_no_source_models) = Raised AttributeError"
    by (simp_all add: mesh_no_source_models_def example_defs write_defs)
  then show ?thesis
    by (simp add: fst_pt_set_eq_orf fst_orf_set_cases)
qed

lemma write_Completed_iff:
  "fst (write_via_lods v m) = Completed \<longleftrightarrow> lods m = Inr []"
  "fst (write_via_source_models v m) = Completed \<longleftrightarrow> source_models m = Inr []"
  "fst (write_via_subsystem v m) = Completed \<longleftrightarrow> lod_reduction_settings m = Inr None"
  by (simp_all add: write_defs split: sum.splits list.splits option.splits)

lemma fst_orf_set_True_iff:
  "fst (orf_set_percent_triangles_lod0 m v) = Inr True \<longleftrightarrow>
    fst (write_via_lods v m) = Returned True
    \<or> fst (write_via_source_models v m) = Returned True
    \<or> fst (write_via_subsystem v m) = Returned True"
  using write_via_lods_Returned [of v m] write_via_source_models_Returned [of v m]
    write_via_subsystem_Returned [of v m]
  by (auto simp: fst_orf_set_cases split: outcome.splits)

lemma fst_orf_set_False_iff:
  "fst (orf_set_percent_triangles_lod0 m v) = Inr False \<longleftrightarrow>
    fst (write_via_lods v m) \<noteq> Returned True
    \<and> fst (write_via_source_models v m) \<noteq> Returned True
    \<and> fst (write_via_subsystem v m) \<noteq> Returned True"
  using write_via_lods_Returned [of v m] write_via_source_models_Returned [of v m]
    write_via_subsystem_Returned [of v m]
  by (auto simp: fst_orf_set_cases split: outcome.splits)

lemma write_not_Returned_False:
  "fst (write_via_lods v m) \<noteq> Returned False"
  "fst (write_via_source_models v m) \<noteq> Returned False"
  "fst (write_via_subsystem v m) \<noteq> Returned False"
  using write_via_lods_Returned [of v m False] write_via_source_models_Returned [of v m False]
    write_via_subsystem_Returned [of v m False]
  by blast+

lemma not_Returned_True_lods:
  "fst (write_via_lods v m) \<noteq> Returned True \<longleftrightarrow>
     (\<exists>e. fst (write_via_lods v m) = Raised e) \<or> lods m = Inr []"
  using write_not_Returned_False(1) [of v m] write_Completed_iff(1) [of v m]
  by (cases "fst (write_via_lods v m)") auto

lemma not_Returned_True_source_models:
  "fst (write_via_source_models v m) \<noteq> Returned True \<longleftrightarrow>
     (\<exists>e. fst (write_via_source_models v m) = Raised e) \<or> source_models m = Inr []"
  using write_not_Returned_False(2) [of v m] write_Completed_iff(2) [of v m]
  by (cases "fst (write_via_source_models v m)") auto

lemma not_Returned_True_subsystem:
  "fst (write_via_subsystem v m) \<noteq> Returned True \<longleftrightarrow>
     (\<exists>e. fst (write_via_subsystem v m) = Raised e) \<or> lod_reduction_settings m = Inr None"
  using write_not_Returned_False(3) [of v m] write_Completed_iff(3) [of v m]
  by (cases "fst (write_via_subsystem v m)") auto


text \<open>
  Claim C3 as amended. A strategy of the write chain succeeds when its block reaches
  \<open>return True\<close>; it completes without success exactly when the object it guards on is
  absent (empty \<open>lods\<close>, empty \<open>source_models\<close>, falsy settings). The write returns True
  exactly when some strategy succeeds, and False exactly when every strategy raises or
  finds its object absent (percenttriangles and OverReducedFinder).
\<close>

theorem set_succeeds_iff_some_strategy_returns:
  "(fst (pt_set_percent_triangles_lod0 m v) = Inr True
      \<longleftrightarrow> (\<exists>k<length (write_chain v). fst ((write_chain v ! k) m) = Returned True))
   \<and> (fst (orf_set_percent_triangles_lod0 m v) = Inr True
      \<longleftrightarrow> (\<exists>k<length (write_chain v). fst ((write_chain v ! k) m) = Returned True))
   \<and> (fst (pt_set_percent_triangles_lod0 m v) = Inr False
      \<longleftrightarrow> (\<forall>k<length (write_chain v).
            (\<exists>e. fst ((write_chain v ! k) m) = Raised e)
            \<or> fst ((write_chain v ! k) m) = Completed))
   \<and> (fst (orf_set_percent_triangles_lod0 m v) = Inr False
      \<longleftrightarrow> (\<forall>k<length (write_chain v).
            (\<exists>e. fst ((write_chain v ! k) m) = Raised e)
            \<or> fst ((write_chain v ! k) m) = Completed))
   \<and> (fst (write_via_lods v m) = Completed \<longleftrightarrow> lods m = Inr [])
   \<and> (fst (write_via_source_models v m) = Completed \<longleftrightarrow> source_models m = Inr [])
   \<and> (fst (write_via_subsystem v m) = Completed \<longleftrightarrow> lod_reduction_settings m = Inr None)"
proof -
  have t: "fst (orf_set_percent_triangles_lod0 m v) = Inr True
      \<longleftrightarrow> (\<exists>k<length (write_chain v). fst ((write_chain v ! k) m) = Returned True)"
    by (simp add: fst_orf_set_True_iff write_chain_nth ex_less_three)
  have f: "fst (orf_set_percent_triangles_lod0 m v) = Inr False
      \<longleftrightarrow> (\<forall>k<length (write_chain v).
            (\<exists>e. fst ((write_chain v ! k) m) = Raised e)
            \<or> fst ((write_chain v ! k) m) = Completed)"
    by (simp add: fst_orf_set_False_iff write_chain_nth all_less_three
          not_Returned_True_lods not_Returned_True_source_models not_Returned_True_subsystem
          write_Completed_iff)
  from t f show ?thesis
    by (simp only: fst_pt_set_eq_orf write_Completed_iff)
qed

theorem set_succeeds_iff_some_strategy_returns_witness:
  "fst (write_via_lods (1 / 10) mesh_full) = Raised AttributeError
   \<and> fst (write_via_source_models (1 / 10) mesh_full) = Returned True
   \<and> fst (pt_set_percent_triangles_lod0 mesh_full (1 / 10)) = Inr True
   \<and> fst (orf_set_percent_triangles_lod0 mesh_full (1 / 10)) = Inr True
   \<and> fst (pt_set_percent_triangles_lod0 mesh_no_source_models (1 / 10)) = Inr False
   \<and> fst (orf_set_percent_triangles_lod0 mesh_no_source_models (1 / 10)) = Inr False"
proof -
  have w: "fst (write_via_lods (1 / 10) mesh_full) = Raised AttributeError"
    "fst (write_via_source_models (1 / 10) mesh_full) = Returned True"
    by (simp_all add: mesh_full_def example_defs write_defs)
  have n: "fst (write_via_lods (1 / 10) mesh_no_source_models) = Raised AttributeError"
    "fst (write_via_source_models (1 / 10) mesh_no_source_models) = Completed"
    "fst (write_via_subsystem (1 / 10) mesh_no_source_models) = Raised AttributeError"
    by (simp_all add: mesh_no_source_models_def example_defs write_defs)
  have h1: "\<exists>k<length (write_chain (1 / 10)).
      fst ((write_chain (1 / 10) ! k) mesh_full) = Returned True"
    by (simp add: write_chain_nth ex_less_three w)
  have h2: "\<forall>k<length (write_chain (1 / 10)).
      (\<exists>e. fst ((write_chain (1 / 10) ! k) mesh_no_source_models) = Raised e)
      \<or> fst ((write_chain (1 / 10) ! k) mesh_no_source_models) = Completed"
    by (simp add: write_chain_nth all_less_three n)
  from set_succeeds_iff_some_strategy_returns [of mesh_full "1 / 10"] h1
  have r1: "fst (pt_set_percent_triangles_lod0 mesh_full (1 / 10)) = Inr True
      \<and> fst (orf_set_percent_triangles_lod0 mesh_full (1 / 10)) = Inr True"
    by blast
  from set_succeeds_iff_some_strategy_returns [of mesh_no_source_models "1 / 10"] h2
  have r2: "fst (pt_set_percent_triangles_lod0 mesh_no_source_models (1 / 10)) = Inr False
      \<and> fst (orf_set_percent_triangles_lod0 mesh_no_source_models (1 / 10)) = Inr False"
    by blast
  from w r1 r2 show ?thesis by simp
qed

section \<open>Short circuit\<close>

lemma fst_read_other_fields:
  "fst (read_via_lods (m\<lparr>lod_reduction_settings := x\<rparr>)) = fst (read_via_lods m)"
  "fst (read_via_source_models (m\<lparr>lod_reduction_settings := x\<rparr>)) = fst (read_via_source_models m)"
  "fst (read_via_lods (m\<lparr>source_models := y\<rparr>)) = fst (read_via_lods m)"
  by (simp_all add: read_defs split: sum.splits list.splits)

lemma fst_write_other_fields:
  "fst (write_via_lods v (m\<lparr>lod_reduction_settings := x, set_lod_reduction_settings := y\<rparr>))
     = fst (write_via_lods v m)"
  "fst (write_via_source_models v (m\<lparr>lod_reduction_settings := x, set_lod_reduction_settings := y\<rparr>))
     = fst (write_via_source_models v m)"
  "fst (write_via_lods v (m\<lparr>source_models := z, set_source_models := u\<rparr>))
     = fst (write_via_lods v m)"
  by (simp_all add: write_defs split: sum.splits list.splits option.splits)

lemma subsystem_untouched:
  "lod_reduction_settings (snd (write_via_lods v m)) = lod_reduction_settings m"
  "lod_reduction_settings (snd (write_via_source_models v m)) = lod_reduction_settings m"
  by (simp_all add: write_defs split: sum.splits list.splits option.splits)

lemma source_models_untouched:
  "source_models (snd (write_via_lods v m)) = source_models m"
  by (simp add: write_defs split: sum.splits list.splits option.splits)

lemma orf_set_first:
  assumes "fst (write_via_lods v m) = Returned True"
  shows "snd (orf_set_percent_triangles_lod0 m v) = snd (write_via_lods v m)"
  using assms by (simp add: orf_set_unfold Let_def)

lemma orf_set_second:
  assumes "fst (write_via_lods v m) \<noteq> Returned True"
    and "fst (write_via_source_models v m) = Returned True"
  shows "snd (orf_set_percent_triangles_lod0 m v)
     = snd (write_via_source_models v (snd (write_via_lods v m)))"
proof -
  from assms(1) write_not_Returned_False(1) [of v m]
  have "\<forall>b. fst (write_via_lods v m) \<noteq> Returned b"
    by (metis (full_types))
  with assms(2) show ?thesis
    by (simp add: orf_set_unfold Let_def split: outcome.splits)
qed

lemma calls_first_write:
  assumes "fst (write_via_lods v m) = Returned True"
  shows "\<exists>cs. calls (snd (orf_set_percent_triangles_lod0 m v)) = calls m @ cs
     \<and> GetEditorProperty ''source_models'' \<notin> set cs
     \<and> GetEditorSubsystem \<notin> set cs \<and> GetLodReductionSettings \<notin> set cs
     \<and> SetLodReductionSettings \<notin> set cs"
proof -
  obtain cs where "calls (snd (write_via_lods v m)) = calls m @ cs"
    and "set cs \<subseteq> {GetEditorProperty ''lods'', GetEditorProperty ''reduction_settings'',
       SetEditorProperty ''percent_triangles'', SetEditorProperty ''reduction_settings'',
       SetEditorProperty ''lods''}"
    using calls_write_via_lods by blast
  then show ?thesis
    by (intro exI [of _ cs]) (auto simp: orf_set_first [OF assms])
qed

lemma calls_second_write:
  assumes "fst (write_via_lods v m) \<noteq> Returned True"
    and "fst (write_via_source_models v m) = Returned True"
  shows "\<exists>cs. calls (snd (orf_set_percent_triangles_lod0 m v)) = calls m @ cs
     \<and> GetEditorSubsystem \<notin> set cs \<and> GetLodReductionSettings \<notin> set cs
     \<and> SetLodReductionSettings \<notin> set cs"
proof -
  let ?m1 = "snd (write_via_lods v m)"
  obtain c1 where c1: "calls ?m1 = calls m @ c1"
    and s1: "set c1 \<subseteq> {GetEditorProperty ''lods'', GetEditorProperty ''reduction_settings'',
       SetEditorProperty ''percent_triangles'', SetEditorProperty ''reduction_settings'',
       SetEditorProperty ''lods''}"
    using calls_write_via_lods by blast
  obtain c2 where c2: "calls (snd (write_via_source_models v ?m1)) = calls ?m1 @ c2"
    and s2: "set c2 \<subseteq> {GetEditorProperty ''source_models'',
       GetEditorProperty ''reduction_settings'',
       SetEditorProperty ''percent_triangles'', SetEditorProperty ''reduction_settings'',
       SetEditorProperty ''source_models''}"
    using calls_write_via_source_models by blast
  from c1 c2 s1 s2 show ?thesis
    by (intro exI [of _ "c1 @ c2"]) (auto simp: orf_set_second [OF assms])
qed

lemma calls_first_read:
  assumes "fst (read_via_lods m) = Returned w"
  shows "\<exists>cs. calls (snd (pt_get_percent_triangles_lod0 m)) = calls m @ cs
     \<and> GetEditorProperty ''source_models'' \<notin> set cs
     \<and> GetEditorSubsystem \<notin> set cs \<and> GetLodReductionSettings \<notin> set cs"
proof -
  obtain cs where "snd (read_via_lods m) = m\<lparr>calls := calls m @ cs\<rparr>"
    and "set cs \<subseteq> {GetEditorProperty ''lods'', GetEditorProperty ''reduction_settings'',
        ReadPercentTriangles}"
    using snd_read_via_lods by blast
  moreover from assms have "snd (pt_get_percent_triangles_lod0 m) = snd (read_via_lods m)"
    by (simp add: pt_get_unfold Let_def)
  ultimately show ?thesis
    by (intro exI [of _ cs]) auto
qed

lemma calls_second_read:
  assumes "\<forall>w. fst (read_via_lods m) \<noteq> Returned w"
    and "fst (read_via_source_models m) = Returned w"
  shows "\<exists>cs. calls (snd (pt_get_percent_triangles_lod0 m)) = calls m @ cs
     \<and> GetEditorSubsystem \<notin> set cs \<and> GetLodReductionSettings \<notin> set cs"
proof -
  let ?m1 = "snd (read_via_lods m)"
  obtain c1 where c1: "?m1 = m\<lparr>calls := calls m @ c1\<rparr>"
    and s1: "set c1 \<subseteq> {GetEditorProperty ''lods'', GetEditorProperty ''reduction_settings'',
        ReadPercentTriangles}"
    using snd_read_via_lods by blast
  obtain c2 where c2: "snd (read_via_source_models ?m1) = ?m1\<lparr>calls := calls ?m1 @ c2\<rparr>"
    and s2: "set c2 \<subseteq> {GetEditorProperty ''source_models'',
        GetEditorProperty ''reduction_settings'', ReadPercentTriangles}"
    using snd_read_via_source_models by blast
  have "calls (snd (read_via_source_models ?m1)) = calls ?m1 @ c2"
    by (subst c2) simp
  also have "calls ?m1 = calls m @ c1"
    by (subst c1) simp
  finally have c: "calls (snd (read_via_source_models ?m1)) = calls m @ (c1 @ c2)"
    by simp
  from assms have "snd (pt_get_percent_triangles_lod0 m) = snd (read_via_source_models ?m1)"
    by (simp add: pt_get_unfold Let_def split: outcome.splits)
  with c s1 s2 show ?thesis
    by (intro exI [of _ "c1 @ c2"]) auto
qed


text \<open>
  Claim C5. Each strategy starts with a host call of its own
  (\<open>get_editor_property("lods")\<close>, \<open>get_editor_property("source_models")\<close>,
  \<open>get_editor_subsystem\<close>), so a strategy was invoked exactly when that call is in the
  call record. When the second strategy is the first to succeed, the calls that the write
  of percenttriangles adds to the record hold no call of the third strategy, the subsystem
  settings are as before, and the result is the same whatever the subsystem would have
  done; when the first strategy succeeds, neither the second nor the third is invoked.
  The same for the read of OverReducedFinder.
\<close>

theorem later_strategies_not_invoked:
  "(fst (write_via_lods v m) \<noteq> Returned True
      \<and> fst (write_via_source_models v m) = Returned True
     \<longrightarrow> fst (pt_set_percent_triangles_lod0 m v) = Inr True
       \<and> (\<exists>cs. calls (snd (pt_set_percent_triangles_lod0 m v)) = calls m @ cs
            \<and> GetEditorSubsystem \<notin> set cs \<and> GetLodReductionSettings \<notin> set cs
            \<and> SetLodReductionSettings \<notin> set cs)
       \<and> lod_reduction_settings (snd (pt_set_percent_triangles_lod0 m v))
            = lod_reduction_settings m
       \<and> (\<forall>x y. fst (pt_set_percent_triangles_lod0
              (m\<lparr>lod_reduction_settings := x, set_lod_reduction_settings := y\<rparr>) v)
            = Inr True))
   \<and> (fst (write_via_lods v m) = Returned True
     \<longrightarrow> fst (pt_set_percent_triangles_lod0 m v) = Inr True
       \<and> (\<exists>cs. calls (snd (pt_set_percent_triangles_lod0 m v)) = calls m @ cs
            \<and> GetEditorProperty ''source_models'' \<notin> set cs
            \<and> GetEditorSubsystem \<notin> set cs \<and> GetLodReductionSettings \<notin> set cs
            \<and> SetLodReductionSettings \<notin> set cs)
       \<and> source_models (snd (pt_set_percent_triangles_lod0 m v)) = source_models m
       \<and> lod_reduction_settings (snd (pt_set_percent_triangles_lod0 m v))
            = lod_reduction_settings m)
   \<and> ((\<forall>w. fst (read_via_lods m) \<noteq> Returned w)
      \<and> fst (read_via_source_models m) = Returned r
     \<longrightarrow> fst (orf_get_percent_triangles_lod0 m) = Inr (Some r)
       \<and> (\<exists>cs. calls (snd (orf_get_percent_triangles_lod0 m)) = calls m @ cs
            \<and> GetEditorSubsystem \<notin> set cs \<and> GetLodReductionSettings \<notin> set cs)
       \<and> (\<forall>x. fst (orf_get_percent_triangles_lod0 (m\<lparr>lod_reduction_settings := x\<rparr>))
            = Inr (Some r)))
   \<and> (fst (read_via_lods m) = Returned r
     \<longrightarrow> fst (orf_get_percent_triangles_lod0 m) = Inr (Some r)
       \<and> (\<exists>cs. calls (snd (orf_get_percent_triangles_lod0 m)) = calls m @ cs
            \<and> GetEditorProperty ''source_models'' \<notin> set cs
            \<and> GetEditorSubsystem \<notin> set cs \<and> GetLodReductionSettings \<notin> set cs)
       \<and> (\<forall>y x. fst (orf_get_percent_triangles_lod0
              (m\<lparr>source_models := y, lod_reduction_settings := x\<rparr>)) = Inr (Some r)))"
proof (intro conjI impI; (elim conjE)?)
  assume a: "fst (write_via_lods v m) \<noteq> Returned True"
    "fst (write_via_source_models v m) = Returned True"
  then have t: "fst (pt_set_percent_triangles_lod0 m v) = Inr True"
    by (simp add: fst_pt_set_eq_orf fst_orf_set_True_iff)
  then have s: "snd (pt_set_percent_triangles_lod0 m v)
      = snd (write_via_source_models v (snd (write_via_lods v m)))"
    by (simp add: snd_pt_set_eq_orf orf_set_second [OF a])
  show "fst (pt_set_percent_triangles_lod0 m v) = Inr True" by (rule t)
  show "\<exists>cs. calls (snd (pt_set_percent_triangles_lod0 m v)) = calls m @ cs
        \<and> GetEditorSubsystem \<notin> set cs \<and> GetLodReductionSettings \<notin> set cs
        \<and> SetLodReductionSettings \<notin> set cs"
    using calls_second_write [OF a] by (simp add: snd_pt_set_eq_orf [OF t])
  show "lod_reduction_settings (snd (pt_set_percent_triangles_lod0 m v))
      = lod_reduction_settings m"
    by (simp add: s subsystem_untouched)
  show "\<forall>x y. fst (pt_set_percent_triangles_lod0
        (m\<lparr>lod_reduction_settings := x, set_lod_reduction_settings := y\<rparr>) v) = Inr True"
    using a by (simp add: fst_pt_set_eq_orf fst_orf_set_True_iff fst_write_other_fields)
next
  assume a: "fst (write_via_lods v m) = Returned True"
  then have t: "fst (pt_set_percent_triangles_lod0 m v) = Inr True"
    by (simp add: fst_pt_set_eq_orf fst_orf_set_True_iff)
  then have s: "snd (pt_set_percent_triangles_lod0 m v) = snd (write_via_lods v m)"
    by (simp add: snd_pt_set_eq_orf orf_set_first [OF a])
  show "fst (pt_set_percent_triangles_lod0 m v) = Inr True" by (rule t)
  show "\<exists>cs. calls (snd (pt_set_percent_triangles_lod0 m v)) = calls m @ cs
        \<and> GetEditorProperty ''source_models'' \<notin> set cs
        \<and> GetEditorSubsystem \<notin> set cs \<and> GetLodReductionSettings \<notin> set cs
        \<and> SetLodReductionSettings \<notin> set cs"
    using calls_first_write [OF a] by (simp add: snd_pt_set_eq_orf [OF t])
  show "source_models (snd (pt_set_percent_triangles_lod0 m v)) = source_models m"
    by (simp add: s source_models_untouched)
  show "lod_reduction_settings (snd (pt_set_percent_triangles_lod0 m v))
      = lod_reduction_settings m"
    by (simp add: s subsystem_untouched)
next
  assume a: "\<forall>w. fst (read_via_lods m) \<noteq> Returned w"
    "fst (read_via_source_models m) = Returned r"
  from a show "fst (orf_get_percent_triangles_lod0 m) = Inr (Some r)"
    by (simp add: orf_get_eq_pt fst_pt_get_cases split: outcome.splits)
  show "\<exists>cs. calls (snd (orf_get_percent_triangles_lod0 m)) = calls m @ cs
        \<and> GetEditorSubsystem \<notin> set cs \<and> GetLodReductionSettings \<notin> set cs"
    using calls_second_read [OF a] by (simp add: orf_get_eq_pt)
  from a show "\<forall>x. fst (orf_get_percent_triangles_lod0 (m\<lparr>lod_reduction_settings := x\<rparr>))
      = Inr (Some r)"
    by (simp add: orf_get_eq_pt fst_pt_get_cases fst_read_other_fields split: outcome.splits)
next
  assume a: "fst (read_via_lods m) = Returned r"
  from a show "fst (orf_get_percent_triangles_lod0 m) = Inr (Some r)"
    by (simp add: orf_get_eq_pt fst_pt_get_cases)
  show "\<exists>cs. calls (snd (orf_get_percent_triangles_lod0 m)) = calls m @ cs
        \<and> GetEditorProperty ''source_models'' \<notin> set cs
        \<and> GetEditorSubsystem \<notin> set cs \<and> GetLodReductionSettings \<notin> set cs"
    using calls_first_read [OF a] by (simp add: orf_get_eq_pt)
  have "fst (read_via_lods (m\<lparr>source_models := y, lod_reduction_settings := x\<rparr>))
      = fst (read_via_lods m)" for x y
    by (simp add: read_defs split: sum.splits list.splits)
  with a show "\<forall>y x. fst (orf_get_percent_triangles_lod0
      (m\<lparr>source_models := y, lod_reduction_settings := x\<rparr>)) = Inr (Some r)"
    by (simp add: orf_get_eq_pt fst_pt_get_cases)
qed


theorem later_strategies_not_invoked_witness:
  "fst (write_via_lods (1 / 10) mesh_full) = Raised AttributeError
   \<and> fst (write_via_source_models (1 / 10) mesh_full) = Returned True
   \<and> fst (write_via_subsystem (1 / 10) mesh_full) = Returned True
   \<and> fst (pt_set_percent_triangles_lod0 mesh_full (1 / 10)) = Inr True
   \<and> lod_reduction_settings (snd (pt_set_percent_triangles_lod0 mesh_full (1 / 10)))
        = Inr (Some (settings_of 1))
   \<and> calls (snd (pt_set_percent_triangles_lod0 mesh_full (1 / 10)))
        = [GetEditorProperty ''lods'', GetEditorProperty ''source_models'',
           GetEditorProperty ''reduction_settings'', SetEditorProperty ''percent_triangles'',
           SetEditorProperty ''reduction_settings'', SetEditorProperty ''source_models'']
   \<and> fst (pt_set_percent_triangles_lod0 mesh_lods_first (1 / 10)) = Inr True
   \<and> source_models (snd (pt_set_percent_triangles_lod0 mesh_lods_first (1 / 10)))
        = Inr [model_of (1 / 10)]
   \<and> fst (orf_get_percent_triangles_lod0 mesh_raises_010_025) = Inr (Some (1 / 10))
   \<and> calls (snd (orf_get_percent_triangles_lod0 mesh_raises_010_025))
        = [GetEditorProperty ''lods'', GetEditorProperty ''source_models'',
           GetEditorProperty ''reduction_settings'', ReadPercentTriangles]
   \<and> fst (orf_get_percent_triangles_lod0 mesh_lods_first) = Inr (Some (1 / 2))"
proof -
  have w: "fst (write_via_lods (1 / 10) mesh_full) = Raised AttributeError"
    "fst (write_via_source_models (1 / 10) mesh_full) = Returned True"
    "fst (write_via_subsystem (1 / 10) mesh_full) = Returned True"
    by (simp_all add: mesh_full_def example_defs write_defs)
  have w1: "fst (write_via_lods (1 / 10) mesh_lods_first) = Returned True"
    by (simp add: mesh_lods_first_def example_defs write_defs)
  have r: "\<forall>w. fst (read_via_lods mesh_raises_010_025) \<noteq> Returned w"
    "fst (read_via_source_models mesh_raises_010_025) = Returned (1 / 10)"
    by (simp_all add: mesh_raises_010_025_def example_defs read_defs)
  have r1: "fst (read_via_lods mesh_lods_first) = Returned (1 / 2)"
    by (simp add: mesh_lods_first_def example_defs read_defs)
  have c1: "calls (snd (pt_set_percent_triangles_lod0 mesh_full (1 / 10)))
        = [GetEditorProperty ''lods'', GetEditorProperty ''source_models'',
           GetEditorProperty ''reduction_settings'', SetEditorProperty ''percent_triangles'',
           SetEditorProperty ''reduction_settings'', SetEditorProperty ''source_models'']"
    by (simp add: pt_set_percent_triangles_lod0_def mesh_full_def example_defs write_defs)
  have c2: "calls (snd (orf_get_percent_triangles_lod0 mesh_raises_010_025))
        = [GetEditorProperty ''lods'', GetEditorProperty ''source_models'',
           GetEditorProperty ''reduction_settings'', ReadPercentTriangles]"
    by (simp add: orf_get_percent_triangles_lod0_def mesh_raises_010_025_def example_defs
          read_defs)
  have l: "lod_reduction_settings mesh_full = Inr (Some (settings_of 1))"
    "source_models mesh_lods_first = Inr [model_of (1 / 10)]"
    by (simp_all add: mesh_full_def mesh_lods_first_def bare_mesh_def)
  from later_strategies_not_invoked [of "1 / 10" mesh_full] w
  have t1: "fst (pt_set_percent_triangles_lod0 mesh_full (1 / 10)) = Inr True
      \<and> lod_reduction_settings (snd (pt_set_percent_triangles_lod0 mesh_full (1 / 10)))
        = lod_reduction_settings mesh_full"
    by simp
  from later_strategies_not_invoked [of "1 / 10" mesh_lods_first] w1
  have t2: "fst (pt_set_percent_triangles_lod0 mesh_lods_first (1 / 10)) = Inr True
      \<and> source_models (snd (pt_set_percent_triangles_lod0 mesh_lods_first (1 / 10)))
        = source_models mesh_lods_first"
    by simp
  from later_strategies_not_invoked [of _ mesh_raises_010_025 "1 / 10"] r
  have t3: "fst (orf_get_percent_triangles_lod0 mesh_raises_010_025) = Inr (Some (1 / 10))"
    by blast
  from later_strategies_not_invoked [of _ mesh_lods_first "1 / 2"] r1
  have t4: "fst (orf_get_percent_triangles_lod0 mesh_lods_first) = Inr (Some (1 / 2))"
    by blast
  from w t1 t2 t3 t4 c1 c2 l show ?thesis by simp
qed

section \<open>The scans\<close>

lemmas count_defs = count_via_mesh_def count_via_render_data_def call_def Let_def

lemma fst_count_calls:
  "fst (count_via_mesh (m\<lparr>calls := cs\<rparr>)) = fst (count_via_mesh m)"
  "fst (count_via_render_data (m\<lparr>calls := cs\<rparr>)) = fst (count_via_render_data m)"
  by (simp_all add: count_defs split: sum.splits list.splits option.splits)

lemma snd_count_frame:
  "snd (count_via_mesh m) = m\<lparr>calls := calls (snd (count_via_mesh m))\<rparr>"
  "snd (count_via_render_data m) = m\<lparr>calls := calls (snd (count_via_render_data m))\<rparr>"
  by (simp_all add: count_defs split: sum.splits list.splits option.splits)

lemma orf_count_unfold:
  "orf_get_lod0_triangle_count m =
    (let m1 = snd (count_via_mesh m); m2 = snd (count_via_render_data m1) in
     case fst (count_via_mesh m) of Returned n \<Rightarrow> (Inr n, m1)
     | _ \<Rightarrow> (case fst (count_via_render_data m) of Returned n \<Rightarrow> (Inr n, m2)
        | _ \<Rightarrow> (Inr (- 1), m2)))"
proof -
  have "fst (count_via_render_data (snd (count_via_mesh m))) = fst (count_via_render_data m)"
    by (subst snd_count_frame(1)) (rule fst_count_calls)
  then show ?thesis
    by (simp add: orf_get_lod0_triangle_count_def case_prod_beta Let_def split: outcome.splits)
qed

lemma tlm_count_eq_orf: "tlm_get_lod0_triangle_count = orf_get_lod0_triangle_count"
  by (rule ext) (simp add: tlm_get_lod0_triangle_count_def orf_get_lod0_triangle_count_def)

lemma fst_orf_count_cases:
  "fst (orf_get_lod0_triangle_count m) =
    (case fst (count_via_mesh m) of Returned n \<Rightarrow> Inr n
     | _ \<Rightarrow> (case fst (count_via_render_data m) of Returned n \<Rightarrow> Inr n
        | _ \<Rightarrow> Inr (- 1)))"
  by (simp add: orf_count_unfold Let_def split: outcome.splits)

lemma fst_orf_count_calls:
  "fst (orf_get_lod0_triangle_count (m\<lparr>calls := cs\<rparr>)) = fst (orf_get_lod0_triangle_count m)"
  by (simp only: fst_orf_count_cases fst_count_calls)

lemma snd_orf_count_frame:
  "\<exists>cs. snd (orf_get_lod0_triangle_count m) = m\<lparr>calls := cs\<rparr>"
proof -
  let ?m1 = "snd (count_via_mesh m)"
  let ?m2 = "snd (count_via_render_data ?m1)"
  have m1: "?m1 = m\<lparr>calls := calls ?m1\<rparr>" by (rule snd_count_frame)
  have "?m2 = ?m1\<lparr>calls := calls ?m2\<rparr>" by (rule snd_count_frame)
  then have m2: "?m2 = m\<lparr>calls := calls ?m2\<rparr>" by (subst (asm) (2) m1) simp
  have "snd (orf_get_lod0_triangle_count m) = ?m1 \<or> snd (orf_get_lod0_triangle_count m) = ?m2"
    by (simp add: orf_count_unfold Let_def split: outcome.splits)
  with m1 m2 show ?thesis by metis
qed

lemma orf_count_Inr: "\<exists>n. fst (orf_get_lod0_triangle_count m) = Inr n"
  by (simp add: fst_orf_count_cases split: outcome.splits)

lemma pt_get_Inr: "\<exists>r. fst (pt_get_percent_triangles_lod0 m) = Inr r"
  by (simp add: fst_pt_get_cases split: outcome.splits)

lemma snd_pt_get_frame: "\<exists>cs. snd (pt_get_percent_triangles_lod0 m) = m\<lparr>calls := cs\<rparr>"
  using snd_pt_get [of m] by blast


lemma orf_count_result:
  "\<exists>n cs. orf_get_lod0_triangle_count m = (Inr n, m\<lparr>calls := cs\<rparr>)"
  using orf_count_Inr [of m] snd_orf_count_frame [of m]
  by (metis prod.collapse)

lemma orf_get_result:
  "\<exists>p cs. orf_get_percent_triangles_lod0 m = (Inr p, m\<lparr>calls := cs\<rparr>)"
  using pt_get_Inr [of m] snd_pt_get_frame [of m]
  by (metis orf_get_eq_pt prod.collapse)

lemma orf_collect_loop_step:
  "\<exists>add. orf_collect_loop thr tri tok (sm # rest) results
        = orf_collect_loop thr tri tok rest (results @ add)
     \<and> (\<forall>mi\<in>set add.
          (\<exists>cs. orf_asset mi = sm\<lparr>calls := cs\<rparr>)
          \<and> fst (orf_get_percent_triangles_lod0 sm) = Inr (Some (orf_percent_raw_before mi))
          \<and> fst (orf_get_lod0_triangle_count sm) = Inr (orf_triangle_count mi)
          \<and> 0 \<le> orf_triangle_count mi)"
proof -
  define sm1 where "sm1 = call GetPathName (call GetName sm)"
  have sm1: "sm1 = sm\<lparr>calls := calls sm1\<rparr>" by (simp add: sm1_def call_def)
  obtain n c2 where e1: "orf_get_lod0_triangle_count sm1 = (Inr n, sm1\<lparr>calls := c2\<rparr>)"
    using orf_count_result by blast
  define sm2 where "sm2 = sm1\<lparr>calls := c2\<rparr>"
  have sm2: "sm2 = sm\<lparr>calls := c2\<rparr>"
    unfolding sm2_def by (subst sm1) simp
  have "fst (orf_get_lod0_triangle_count sm1) = Inr n" by (simp add: e1)
  then have n': "fst (orf_get_lod0_triangle_count sm) = Inr n"
    by (subst (asm) sm1) (simp only: fst_orf_count_calls)
  obtain p c3 where e2: "orf_get_percent_triangles_lod0 sm2 = (Inr p, sm2\<lparr>calls := c3\<rparr>)"
    using orf_get_result by blast
  define sm3 where "sm3 = sm2\<lparr>calls := c3\<rparr>"
  have sm3: "sm3 = sm\<lparr>calls := c3\<rparr>"
    unfolding sm3_def by (subst sm2) simp
  have "fst (orf_get_percent_triangles_lod0 sm2) = Inr p" by (simp add: e2)
  then have p': "fst (orf_get_percent_triangles_lod0 sm) = Inr p"
    by (subst (asm) sm2) (simp only: orf_get_eq_pt fst_pt_get_calls)
  have step: "orf_collect_loop thr tri tok (sm # rest) results =
     (if \<not> has_building_token (get_path_name sm) tok
      then orf_collect_loop thr tri tok rest results
      else if n < 0 then orf_collect_loop thr tri tok rest results
      else if is_over_reduced p thr \<and> n < tri
      then orf_collect_loop thr tri tok rest
             (results @
              [\<lparr> orf_name = get_name sm, orf_package_path = get_path_name sm,
                 orf_triangle_count = n,
                 orf_percent_raw_before = (case p of Some q \<Rightarrow> q | None \<Rightarrow> 0),
                 orf_asset = sm3, orf_action = ''FOUND'',
                 orf_percent_raw_after = None \<rparr>])
      else orf_collect_loop thr tri tok rest results)"
    unfolding orf_collect_loop.simps(2) Let_def sm1_def [symmetric]
    by (simp add: e1 e2 [unfolded sm2_def] sm3_def sm2_def)
  show ?thesis
  proof (cases "has_building_token (get_path_name sm) tok \<and> \<not> n < 0
      \<and> is_over_reduced p thr \<and> n < tri")
    case False
    then have "orf_collect_loop thr tri tok (sm # rest) results
        = orf_collect_loop thr tri tok rest (results @ [])"
      unfolding step by auto
    then show ?thesis by (intro exI [of _ "[]"]) simp
  next
    case True
    then obtain q where q: "p = Some q" by (cases p) (simp_all add: is_over_reduced_def)
    define mi where "mi = \<lparr> orf_name = get_name sm, orf_package_path = get_path_name sm,
        orf_triangle_count = n, orf_percent_raw_before = q,
        orf_asset = sm3, orf_action = ''FOUND'', orf_percent_raw_after = None \<rparr>"
    from True q have "orf_collect_loop thr tri tok (sm # rest) results
        = orf_collect_loop thr tri tok rest (results @ [mi])"
      unfolding step mi_def by simp
    moreover have "\<exists>cs. orf_asset mi = sm\<lparr>calls := cs\<rparr>"
      using sm3 by (auto simp: mi_def)
    moreover have "orf_percent_raw_before mi = q" "orf_triangle_count mi = n"
      by (simp_all add: mi_def)
    ultimately show ?thesis
      using True q p' n' by (intro exI [of _ "[mi]"]) simp
  qed
qed

lemma orf_collect_loop_inv:
  "\<exists>add. orf_collect_loop thr tri tok sms results = Inr (results @ add)
     \<and> (\<forall>mi\<in>set add. \<exists>sm\<in>set sms.
          (\<exists>cs. orf_asset mi = sm\<lparr>calls := cs\<rparr>)
          \<and> fst (orf_get_percent_triangles_lod0 sm) = Inr (Some (orf_percent_raw_before mi))
          \<and> fst (orf_get_lod0_triangle_count sm) = Inr (orf_triangle_count mi)
          \<and> 0 \<le> orf_triangle_count mi)"
proof (induction sms arbitrary: results)
  case Nil
  show ?case by simp
next
  case (Cons sm rest)
  obtain a1 where a1: "orf_collect_loop thr tri tok (sm # rest) results
        = orf_collect_loop thr tri tok rest (results @ a1)"
    and p1: "\<forall>mi\<in>set a1.
          (\<exists>cs. orf_asset mi = sm\<lparr>calls := cs\<rparr>)
          \<and> fst (orf_get_percent_triangles_lod0 sm) = Inr (Some (orf_percent_raw_before mi))
          \<and> fst (orf_get_lod0_triangle_count sm) = Inr (orf_triangle_count mi)
          \<and> 0 \<le> orf_triangle_count mi"
    using orf_collect_loop_step by blast
  obtain a2 where a2: "orf_collect_loop thr tri tok rest (results @ a1)
        = Inr ((results @ a1) @ a2)"
    and p2: "\<forall>mi\<in>set a2. \<exists>sm\<in>set rest.
          (\<exists>cs. orf_asset mi = sm\<lparr>calls := cs\<rparr>)
          \<and> fst (orf_get_percent_triangles_lod0 sm) = Inr (Some (orf_percent_raw_before mi))
          \<and> fst (orf_get_lod0_triangle_count sm) = Inr (orf_triangle_count mi)
          \<and> 0 \<le> orf_triangle_count mi"
    using Cons.IH by blast
  show ?case
  proof (intro exI [of _ "a1 @ a2"] conjI ballI)
    show "orf_collect_loop thr tri tok (sm # rest) results = Inr (results @ a1 @ a2)"
      using a1 a2 by simp
  next
    fix mi assume "mi \<in> set (a1 @ a2)"
    then consider "mi \<in> set a1" | "mi \<in> set a2" by auto
    then show "\<exists>sm\<in>set (sm # rest).
          (\<exists>cs. orf_asset mi = sm\<lparr>calls := cs\<rparr>)
          \<and> fst (orf_get_percent_triangles_lod0 sm) = Inr (Some (orf_percent_raw_before mi))
          \<and> fst (orf_get_lod0_triangle_count sm) = Inr (orf_triangle_count mi)
          \<and> 0 \<le> orf_triangle_count mi"
    proof cases
      case 1
      with p1 show ?thesis by simp
    next
      case 2
      with p2 show ?thesis by (meson list.set_intros(2))
    qed
  qed
qed

lemma set_orf_iter_static_meshes:
  "sm \<in> set (orf_iter_static_meshes assets) \<Longrightarrow> Inr (StaticMeshObject sm) \<in> set assets"
  by (induction assets rule: orf_iter_static_meshes.induct) auto


lemma snd_tlm_nanite_state:
  "snd (tlm_nanite_state m) = m\<lparr>calls := calls (snd (tlm_nanite_state m))\<rparr>"
  by (simp add: tlm_nanite_state_def call_def Let_def split: sum.splits option.splits)

lemma tlm_nanite_state_result:
  "\<exists>b cs. tlm_nanite_state m = (b, m\<lparr>calls := cs\<rparr>)"
  using snd_tlm_nanite_state [of m] by (metis prod.collapse)

lemma tlm_collect_loop_step:
  "\<exists>add. tlm_collect_loop tri mn (sm # rest) results
        = tlm_collect_loop tri mn rest (results @ add)
     \<and> (\<forall>mi\<in>set add.
          (\<exists>cs. tlm_asset mi = sm\<lparr>calls := cs\<rparr>)
          \<and> fst (tlm_get_percent_triangles_lod0 sm) = Inr (Some (tlm_percent_raw mi))
          \<and> fst (tlm_get_lod0_triangle_count sm) = Inr (tlm_triangle_count mi)
          \<and> 0 \<le> tlm_triangle_count mi)"
proof -
  define sm1 where "sm1 = call GetName sm"
  have sm1: "sm1 = sm\<lparr>calls := calls sm1\<rparr>" by (simp add: sm1_def call_def)
  obtain n c2 where e1: "tlm_get_lod0_triangle_count sm1 = (Inr n, sm1\<lparr>calls := c2\<rparr>)"
    using orf_count_result [of sm1] by (auto simp: tlm_count_eq_orf)
  define sm2 where "sm2 = sm1\<lparr>calls := c2\<rparr>"
  have sm2: "sm2 = sm\<lparr>calls := c2\<rparr>"
    unfolding sm2_def by (subst sm1) simp
  have "fst (orf_get_lod0_triangle_count sm1) = Inr n" by (simp add: e1 [unfolded tlm_count_eq_orf])
  then have n': "fst (tlm_get_lod0_triangle_count sm) = Inr n"
    by (subst (asm) sm1) (simp only: tlm_count_eq_orf fst_orf_count_calls)
  obtain p c3 where e2: "tlm_get_percent_triangles_lod0 sm2 = (Inr p, sm2\<lparr>calls := c3\<rparr>)"
    using orf_get_result [of sm2] by (auto simp: tlm_get_eq_pt orf_get_eq_pt)
  define sm3 where "sm3 = sm2\<lparr>calls := c3\<rparr>"
  have "fst (pt_get_percent_triangles_lod0 sm2) = Inr p" by (simp add: e2 [unfolded tlm_get_eq_pt])
  then have p': "fst (tlm_get_percent_triangles_lod0 sm) = Inr p"
    by (subst (asm) sm2) (simp only: tlm_get_eq_pt fst_pt_get_calls)
  obtain b c4 where e3: "tlm_nanite_state (sm1\<lparr>calls := c3\<rparr>) = (b, sm1\<lparr>calls := c4\<rparr>)"
    using tlm_nanite_state_result [of "sm1\<lparr>calls := c3\<rparr>"] by auto
  define sm5 where "sm5 = call GetPathName (sm1\<lparr>calls := c4\<rparr>)"
  have sm5: "sm5 = sm\<lparr>calls := calls sm5\<rparr>"
    unfolding sm5_def by (subst sm1) (simp add: call_def)
  have step: "tlm_collect_loop tri mn (sm # rest) results =
     (if n < 0 \<or> n < tri then tlm_collect_loop tri mn rest results
      else if is_unreduced p mn
      then tlm_collect_loop tri mn rest
             (results @
              [\<lparr> tlm_name = get_name sm, tlm_package_path = get_path_name sm,
                 tlm_triangle_count = n,
                 tlm_percent_raw = (case p of Some q \<Rightarrow> q | None \<Rightarrow> 1),
                 tlm_nanite_enabled = b, tlm_asset = sm5 \<rparr>])
      else tlm_collect_loop tri mn rest results)"
    unfolding tlm_collect_loop.simps(2) Let_def sm1_def [symmetric]
    by (simp add: e1 e2 [unfolded sm2_def] e3 sm5_def)
  show ?thesis
  proof (cases "\<not> (n < 0 \<or> n < tri) \<and> is_unreduced p mn")
    case False
    then have "tlm_collect_loop tri mn (sm # rest) results
        = tlm_collect_loop tri mn rest (results @ [])"
      unfolding step by auto
    then show ?thesis by (intro exI [of _ "[]"]) simp
  next
    case True
    then obtain q where q: "p = Some q" by (cases p) (simp_all add: is_unreduced_def)
    define mi where "mi = \<lparr> tlm_name = get_name sm, tlm_package_path = get_path_name sm,
        tlm_triangle_count = n, tlm_percent_raw = q,
        tlm_nanite_enabled = b, tlm_asset = sm5 \<rparr>"
    from True q have "tlm_collect_loop tri mn (sm # rest) results
        = tlm_collect_loop tri mn rest (results @ [mi])"
      unfolding step mi_def by simp
    moreover have "\<exists>cs. tlm_asset mi = sm\<lparr>calls := cs\<rparr>"
      using sm5 by (auto simp: mi_def)
    moreover have "tlm_percent_raw mi = q" "tlm_triangle_count mi = n"
      by (simp_all add: mi_def)
    ultimately show ?thesis
      using True q p' n' by (intro exI [of _ "[mi]"]) simp
  qed
qed

lemma tlm_collect_loop_inv:
  "\<exists>add. tlm_collect_loop tri mn sms results = Inr (results @ add)
     \<and> (\<forall>mi\<in>set add. \<exists>sm\<in>set sms.
          (\<exists>cs. tlm_asset mi = sm\<lparr>calls := cs\<rparr>)
          \<and> fst (tlm_get_percent_triangles_lod0 sm) = Inr (Some (tlm_percent_raw mi))
          \<and> fst (tlm_get_lod0_triangle_count sm) = Inr (tlm_triangle_count mi)
          \<and> 0 \<le> tlm_triangle_count mi)"
proof (induction sms arbitrary: results)
  case Nil
  show ?case by simp
next
  case (Cons sm rest)
  obtain a1 where a1: "tlm_collect_loop tri mn (sm # rest) results
        = tlm_collect_loop tri mn rest (results @ a1)"
    and p1: "\<forall>mi\<in>set a1.
          (\<exists>cs. tlm_asset mi = sm\<lparr>calls := cs\<rparr>)
          \<and> fst (tlm_get_percent_triangles_lod0 sm) = Inr (Some (tlm_percent_raw mi))
          \<and> fst (tlm_get_lod0_triangle_count sm) = Inr (tlm_triangle_count mi)
          \<and> 0 \<le> tlm_triangle_count mi"
    using tlm_collect_loop_step by blast
  obtain a2 where a2: "tlm_collect_loop tri mn rest (results @ a1)
        = Inr ((results @ a1) @ a2)"
    and p2: "\<forall>mi\<in>set a2. \<exists>sm\<in>set rest.
          (\<exists>cs. tlm_asset mi = sm\<lparr>calls := cs\<rparr>)
          \<and> fst (tlm_get_percent_triangles_lod0 sm) = Inr (Some (tlm_percent_raw mi))
          \<and> fst (tlm_get_lod0_triangle_count sm) = Inr (tlm_triangle_count mi)
          \<and> 0 \<le> tlm_triangle_count mi"
    using Cons.IH by blast
  show ?case
  proof (intro exI [of _ "a1 @ a2"] conjI ballI)
    show "tlm_collect_loop tri mn (sm # rest) results = Inr (results @ a1 @ a2)"
      using a1 a2 by simp
  next
    fix mi assume "mi \<in> set (a1 @ a2)"
    then consider "mi \<in> set a1" | "mi \<in> set a2" by auto
    then show "\<exists>sm\<in>set (sm # rest).
          (\<exists>cs. tlm_asset mi = sm\<lparr>calls := cs\<rparr>)
          \<and> fst (tlm_get_percent_triangles_lod0 sm) = Inr (Some (tlm_percent_raw mi))
          \<and> fst (tlm_get_lod0_triangle_count sm) = Inr (tlm_triangle_count mi)
          \<and> 0 \<le> tlm_triangle_count mi"
    proof cases
      case 1
      with p1 show ?thesis by simp
    next
      case 2
      with p2 show ?thesis by (meson list.set_intros(2))
    qed
  qed
qed

lemma set_tlm_iter_static_meshes:
  "sm \<in> set (tlm_iter_static_meshes assets) \<Longrightarrow> Inr (StaticMeshObject sm) \<in> set assets"
  by (induction assets rule: tlm_iter_static_meshes.induct) auto

lemma orf_collect_candidates_inv:
  "\<exists>rs. orf_collect_candidates assets thr tri tok = Inr rs
     \<and> (\<forall>mi\<in>set rs. \<exists>sm. Inr (StaticMeshObject sm) \<in> set assets
          \<and> (\<exists>cs. orf_asset mi = sm\<lparr>calls := cs\<rparr>)
          \<and> fst (orf_get_percent_triangles_lod0 sm) = Inr (Some (orf_percent_raw_before mi))
          \<and> fst (orf_get_lod0_triangle_count sm) = Inr (orf_triangle_count mi)
          \<and> 0 \<le> orf_triangle_count mi)"
  using orf_collect_loop_inv [of thr tri tok "orf_iter_static_meshes assets" "[]"]
  unfolding orf_collect_candidates_def
  by (auto dest: set_orf_iter_static_meshes) (meson set_orf_iter_static_meshes)

lemma tlm_collect_candidates_inv:
  "\<exists>rs. tlm_collect_candidates assets tri mn = Inr rs
     \<and> (\<forall>mi\<in>set rs. \<exists>sm. Inr (StaticMeshObject sm) \<in> set assets
          \<and> (\<exists>cs. tlm_asset mi = sm\<lparr>calls := cs\<rparr>)
          \<and> fst (tlm_get_percent_triangles_lod0 sm) = Inr (Some (tlm_percent_raw mi))
          \<and> fst (tlm_get_lod0_triangle_count sm) = Inr (tlm_triangle_count mi)
          \<and> 0 \<le> tlm_triangle_count mi)"
  using tlm_collect_loop_inv [of tri mn "tlm_iter_static_meshes assets" "[]"]
  unfolding tlm_collect_candidates_def
  by (auto dest: set_tlm_iter_static_meshes) (meson set_tlm_iter_static_meshes)

lemma has_building_token_wall: "has_building_token ''/Game/Buildings/SM_Wall.SM_Wall'' ''Building''"
  by (simp add: has_building_token_def lower_def lower_char_def sublist_code)

lemma has_building_token_test: "has_building_token ''/Game/Building/SM_Test.SM_Test'' ''Building''"
  by (simp add: has_building_token_def lower_def lower_char_def sublist_code)

lemmas mesh_defs = mesh_over_reduced_def mesh_unreadable_def mesh_unknown_count_def
  mesh_unreduced_def example_defs

lemma orf_collect_example:
  "\<exists>a. orf_collect_candidates example_assets (9 / 100) 500 ''Building'' =
     Inr [\<lparr> orf_name = ''SM_Wall'', orf_package_path = ''/Game/Buildings/SM_Wall.SM_Wall'',
            orf_triangle_count = 120, orf_percent_raw_before = 5 / 100,
            orf_asset = a, orf_action = ''FOUND'', orf_percent_raw_after = None \<rparr>]"
  by (simp add: orf_collect_candidates_def example_assets_def mesh_defs has_building_token_wall has_building_token_test
        orf_get_lod0_triangle_count_def count_defs orf_get_percent_triangles_lod0_def
        read_defs is_over_reduced_def)

lemma tlm_collect_example:
  "\<exists>a. tlm_collect_candidates example_assets 50000 (99 / 100) =
     Inr [\<lparr> tlm_name = ''SM_Tower'', tlm_package_path = ''/Game/Building/SM_Test.SM_Test'',
            tlm_triangle_count = 60000, tlm_percent_raw = 1,
            tlm_nanite_enabled = True, tlm_asset = a \<rparr>]"
  by (simp add: tlm_collect_candidates_def example_assets_def mesh_defs
        tlm_get_lod0_triangle_count_def count_defs tlm_get_percent_triangles_lod0_def
        read_defs is_unreduced_def tlm_EPS_RAW_def tlm_nanite_state_def)


text \<open>
  Claim C9. \<open>is_over_reduced\<close> and \<open>is_unreduced\<close> are False on an unreadable ratio
  (\<open>None\<close>), and both scans return a list in which every record comes from a static mesh
  of the registry whose reduction ratio reads as the value stored in the record: a mesh
  whose ratio cannot be read is in no record.
\<close>

theorem unreadable_ratio_never_selected:
  "is_over_reduced None t = False \<and> is_unreduced None mn = False
   \<and> (\<exists>rs. orf_collect_candidates assets thr tri tok = Inr rs
        \<and> (\<forall>mi\<in>set rs. \<exists>sm. Inr (StaticMeshObject sm) \<in> set assets
             \<and> (\<exists>cs. orf_asset mi = sm\<lparr>calls := cs\<rparr>)
             \<and> fst (orf_get_percent_triangles_lod0 sm)
                  = Inr (Some (orf_percent_raw_before mi))))
   \<and> (\<exists>rs. tlm_collect_candidates assets tri' mn = Inr rs
        \<and> (\<forall>mi\<in>set rs. \<exists>sm. Inr (StaticMeshObject sm) \<in> set assets
             \<and> (\<exists>cs. tlm_asset mi = sm\<lparr>calls := cs\<rparr>)
             \<and> fst (tlm_get_percent_triangles_lod0 sm) = Inr (Some (tlm_percent_raw mi))))"
proof (intro conjI)
  show "is_over_reduced None t = False" by (simp add: is_over_reduced_def)
  show "is_unreduced None mn = False" by (simp add: is_unreduced_def)
  show "\<exists>rs. orf_collect_candidates assets thr tri tok = Inr rs
        \<and> (\<forall>mi\<in>set rs. \<exists>sm. Inr (StaticMeshObject sm) \<in> set assets
             \<and> (\<exists>cs. orf_asset mi = sm\<lparr>calls := cs\<rparr>)
             \<and> fst (orf_get_percent_triangles_lod0 sm)
                  = Inr (Some (orf_percent_raw_before mi)))"
    using orf_collect_candidates_inv [of assets thr tri tok] by blast
  show "\<exists>rs. tlm_collect_candidates assets tri' mn = Inr rs
        \<and> (\<forall>mi\<in>set rs. \<exists>sm. Inr (StaticMeshObject sm) \<in> set assets
             \<and> (\<exists>cs. tlm_asset mi = sm\<lparr>calls := cs\<rparr>)
             \<and> fst (tlm_get_percent_triangles_lod0 sm) = Inr (Some (tlm_percent_raw mi)))"
    using tlm_collect_candidates_inv [of assets tri' mn] by blast
qed

theorem unreadable_ratio_never_selected_witness:
  "fst (orf_get_percent_triangles_lod0 mesh_unreadable) = Inr None
   \<and> Inr (StaticMeshObject mesh_unreadable) \<in> set example_assets
   \<and> (\<exists>rs. orf_collect_candidates example_assets (9 / 100) 500 ''Building'' = Inr rs
        \<and> map orf_name rs = [''SM_Wall'']
        \<and> list_all (\<lambda>mi. \<exists>sm. Inr (StaticMeshObject sm) \<in> set example_assets
             \<and> fst (orf_get_percent_triangles_lod0 sm)
                  = Inr (Some (orf_percent_raw_before mi))) rs)
   \<and> (\<exists>rs. tlm_collect_candidates example_assets 50000 (99 / 100) = Inr rs
        \<and> map tlm_name rs = [''SM_Tower'']
        \<and> list_all (\<lambda>mi. \<exists>sm. Inr (StaticMeshObject sm) \<in> set example_assets
             \<and> fst (tlm_get_percent_triangles_lod0 sm) = Inr (Some (tlm_percent_raw mi))) rs)"
proof -
  have u: "fst (orf_get_percent_triangles_lod0 mesh_unreadable) = Inr None"
    by (simp add: orf_get_percent_triangles_lod0_def mesh_defs read_defs)
  have i: "Inr (StaticMeshObject mesh_unreadable) \<in> set example_assets"
    by (simp add: example_assets_def)
  from unreadable_ratio_never_selected
    [of _ "99 / 100" example_assets "9 / 100" 500 "''Building''" 50000]
  obtain rs1 rs2 where
    r1: "orf_collect_candidates example_assets (9 / 100) 500 ''Building'' = Inr rs1"
    and p1: "\<forall>mi\<in>set rs1. \<exists>sm. Inr (StaticMeshObject sm) \<in> set example_assets
             \<and> (\<exists>cs. orf_asset mi = sm\<lparr>calls := cs\<rparr>)
             \<and> fst (orf_get_percent_triangles_lod0 sm)
                  = Inr (Some (orf_percent_raw_before mi))"
    and r2: "tlm_collect_candidates example_assets 50000 (99 / 100) = Inr rs2"
    and p2: "\<forall>mi\<in>set rs2. \<exists>sm. Inr (StaticMeshObject sm) \<in> set example_assets
             \<and> (\<exists>cs. tlm_asset mi = sm\<lparr>calls := cs\<rparr>)
             \<and> fst (tlm_get_percent_triangles_lod0 sm) = Inr (Some (tlm_percent_raw mi))"
    by blast
  from r1 orf_collect_example have n1: "map orf_name rs1 = [''SM_Wall'']" by auto
  from r2 tlm_collect_example have n2: "map tlm_name rs2 = [''SM_Tower'']" by auto
  from p1 have l1: "list_all (\<lambda>mi. \<exists>sm. Inr (StaticMeshObject sm) \<in> set example_assets
             \<and> fst (orf_get_percent_triangles_lod0 sm)
                  = Inr (Some (orf_percent_raw_before mi))) rs1"
    unfolding list_all_iff by blast
  from p2 have l2: "list_all (\<lambda>mi. \<exists>sm. Inr (StaticMeshObject sm) \<in> set example_assets
             \<and> fst (tlm_get_percent_triangles_lod0 sm) = Inr (Some (tlm_percent_raw mi))) rs2"
    unfolding list_all_iff by blast
  show ?thesis
    by (intro conjI exI [of _ rs1] exI [of _ rs2]) (rule u i r1 n1 l1 r2 n2 l2)+
qed

text \<open>
  Claim C10. Both scans return a list in which every record has a triangle count that is
  not negative and is the count \<open>get_lod0_triangle_count\<close> returned for its mesh; and
  \<open>get_lod0_triangle_count\<close> returns -1 when neither of its two blocks returns a count.
\<close>

theorem candidate_triangle_count_nonnegative:
  "(\<exists>rs. orf_collect_candidates assets thr tri tok = Inr rs
        \<and> (\<forall>mi\<in>set rs. 0 \<le> orf_triangle_count mi
             \<and> (\<exists>sm. Inr (StaticMeshObject sm) \<in> set assets
                  \<and> fst (orf_get_lod0_triangle_count sm) = Inr (orf_triangle_count mi))))
   \<and> (\<exists>rs. tlm_collect_candidates assets tri' mn = Inr rs
        \<and> (\<forall>mi\<in>set rs. 0 \<le> tlm_triangle_count mi
             \<and> (\<exists>sm. Inr (StaticMeshObject sm) \<in> set assets
                  \<and> fst (tlm_get_lod0_triangle_count sm) = Inr (tlm_triangle_count mi))))
   \<and> ((\<forall>n. fst (count_via_mesh m) \<noteq> Returned n)
        \<and> (\<forall>n. fst (count_via_render_data m) \<noteq> Returned n)
      \<longrightarrow> fst (orf_get_lod0_triangle_count m) = Inr (- 1)
        \<and> fst (tlm_get_lod0_triangle_count m) = Inr (- 1))"
proof (intro conjI impI)
  show "\<exists>rs. orf_collect_candidates assets thr tri tok = Inr rs
        \<and> (\<forall>mi\<in>set rs. 0 \<le> orf_triangle_count mi
             \<and> (\<exists>sm. Inr (StaticMeshObject sm) \<in> set assets
                  \<and> fst (orf_get_lod0_triangle_count sm) = Inr (orf_triangle_count mi)))"
    using orf_collect_candidates_inv [of assets thr tri tok] by blast
  show "\<exists>rs. tlm_collect_candidates assets tri' mn = Inr rs
        \<and> (\<forall>mi\<in>set rs. 0 \<le> tlm_triangle_count mi
             \<and> (\<exists>sm. Inr (StaticMeshObject sm) \<in> set assets
                  \<and> fst (tlm_get_lod0_triangle_count sm) = Inr (tlm_triangle_count mi)))"
    using tlm_collect_candidates_inv [of assets tri' mn] by blast
next
  assume a: "(\<forall>n. fst (count_via_mesh m) \<noteq> Returned n)
        \<and> (\<forall>n. fst (count_via_render_data m) \<noteq> Returned n)"
  then have "fst (orf_get_lod0_triangle_count m) = Inr (- 1)"
    by (simp add: fst_orf_count_cases split: outcome.splits)
  then show "fst (orf_get_lod0_triangle_count m) = Inr (- 1)"
    and "fst (tlm_get_lod0_triangle_count m) = Inr (- 1)"
    by (simp_all add: tlm_count_eq_orf)
qed

theorem candidate_triangle_count_nonnegative_witness:
  "fst (orf_get_lod0_triangle_count mesh_unknown_count) = Inr (- 1)
   \<and> fst (tlm_get_lod0_triangle_count mesh_unknown_count) = Inr (- 1)
   \<and> Inr (StaticMeshObject mesh_unknown_count) \<in> set example_assets
   \<and> (\<exists>rs. orf_collect_candidates example_assets (9 / 100) 500 ''Building'' = Inr rs
        \<and> map orf_triangle_count rs = [120]
        \<and> list_all (\<lambda>mi. 0 \<le> orf_triangle_count mi) rs)
   \<and> (\<exists>rs. tlm_collect_candidates example_assets 50000 (99 / 100) = Inr rs
        \<and> map tlm_triangle_count rs = [60000]
        \<and> list_all (\<lambda>mi. 0 \<le> tlm_triangle_count mi) rs)"
proof -
  have c: "\<forall>n. fst (count_via_mesh mesh_unknown_count) \<noteq> Returned n"
    "\<forall>n. fst (count_via_render_data mesh_unknown_count) \<noteq> Returned n"
    by (simp_all add: mesh_defs count_defs)
  have i: "Inr (StaticMeshObject mesh_unknown_count) \<in> set example_assets"
    by (simp add: example_assets_def)
  note t = candidate_triangle_count_nonnegative
    [of example_assets "9 / 100" 500 "''Building''" 50000 "99 / 100" mesh_unknown_count]
  from t c have u: "fst (orf_get_lod0_triangle_count mesh_unknown_count) = Inr (- 1)
        \<and> fst (tlm_get_lod0_triangle_count mesh_unknown_count) = Inr (- 1)"
    by blast
  from t obtain rs1 rs2 where
    r1: "orf_collect_candidates example_assets (9 / 100) 500 ''Building'' = Inr rs1"
    and p1: "\<forall>mi\<in>set rs1. 0 \<le> orf_triangle_count mi"
    and r2: "tlm_collect_candidates example_assets 50000 (99 / 100) = Inr rs2"
    and p2: "\<forall>mi\<in>set rs2. 0 \<le> tlm_triangle_count mi"
    by blast
  from r1 orf_collect_example have n1: "map orf_triangle_count rs1 = [120]" by auto
  from r2 tlm_collect_example have n2: "map tlm_triangle_count rs2 = [60000]" by auto
  from p1 p2 have l: "list_all (\<lambda>mi. 0 \<le> orf_triangle_count mi) rs1"
    "list_all (\<lambda>mi. 0 \<le> tlm_triangle_count mi) rs2"
    unfolding list_all_iff by blast+
  show ?thesis
    by (intro conjI exI [of _ rs1] exI [of _ rs2])
       (rule u [THEN conjunct1] u [THEN conjunct2] i r1 n1 r2 n2 l)+
qed

section \<open>Processing a mesh\<close>


lemma pt_set_preserves:
  assumes "\<And>v m. f (snd (write_via_lods v m)) = f m"
    and "\<And>v m. f (snd (write_via_source_models v m)) = f m"
    and "\<And>v m. f (snd (write_via_subsystem v m)) = f m"
    and "\<And>c m. f (call c m) = f m"
  shows "f (snd (pt_set_percent_triangles_lod0 m v)) = f m"
  by (simp add: pt_set_percent_triangles_lod0_def case_prod_beta assms split: outcome.splits)

lemma write_keeps_nanite_enabled:
  "nanite_enabled (snd (write_via_lods v m)) = nanite_enabled m"
  "nanite_enabled (snd (write_via_source_models v m)) = nanite_enabled m"
  "nanite_enabled (snd (write_via_subsystem v m)) = nanite_enabled m"
  by (simp_all add: write_defs split: sum.splits list.splits option.splits)



lemma calls_orf_set:
  "\<exists>cs. calls (snd (orf_set_percent_triangles_lod0 m v)) = calls m @ cs
     \<and> ReadPercentTriangles \<notin> set cs"
proof -
  let ?m1 = "snd (write_via_lods v m)"
  let ?m2 = "snd (write_via_source_models v ?m1)"
  let ?m3 = "snd (write_via_subsystem v ?m2)"
  obtain c1 where c1: "calls ?m1 = calls m @ c1"
    and s1: "set c1 \<subseteq> {GetEditorProperty ''lods'', GetEditorProperty ''reduction_settings'',
       SetEditorProperty ''percent_triangles'', SetEditorProperty ''reduction_settings'',
       SetEditorProperty ''lods''}"
    using calls_write_via_lods by blast
  obtain c2 where c2: "calls ?m2 = calls ?m1 @ c2"
    and s2: "set c2 \<subseteq> {GetEditorProperty ''source_models'',
       GetEditorProperty ''reduction_settings'',
       SetEditorProperty ''percent_triangles'', SetEditorProperty ''reduction_settings'',
       SetEditorProperty ''source_models''}"
    using calls_write_via_source_models by blast
  obtain c3 where c3: "calls ?m3 = calls ?m2 @ c3"
    and s3: "set c3 \<subseteq> {GetEditorSubsystem, GetLodReductionSettings,
       SetEditorProperty ''percent_triangles'', SetLodReductionSettings}"
    using calls_write_via_subsystem by blast
  have n1: "ReadPercentTriangles \<notin> set c1" using s1 by auto
  have n2: "ReadPercentTriangles \<notin> set c2" using s2 by auto
  have n3: "ReadPercentTriangles \<notin> set c3" using s3 by auto
  have "snd (orf_set_percent_triangles_lod0 m v) = ?m1
      \<or> snd (orf_set_percent_triangles_lod0 m v) = ?m2
      \<or> snd (orf_set_percent_triangles_lod0 m v) = ?m3"
    by (simp add: orf_set_percent_triangles_lod0_def case_prod_beta split: outcome.splits)
  then show ?thesis
  proof (elim disjE)
    assume "snd (orf_set_percent_triangles_lod0 m v) = ?m1"
    with c1 n1 show ?thesis by auto
  next
    assume "snd (orf_set_percent_triangles_lod0 m v) = ?m2"
    with c1 c2 n1 n2 show ?thesis by (intro exI [of _ "c1 @ c2"]) simp
  next
    assume "snd (orf_set_percent_triangles_lod0 m v) = ?m3"
    with c1 c2 c3 n1 n2 n3 show ?thesis by (intro exI [of _ "c1 @ c2 @ c3"]) simp
  qed
qed

lemmas orf_save_defs = orf_build_and_save_def orf_attempt_def call_def Let_def

lemma fst_orf_attempt: "fst (orf_attempt c api m) \<longleftrightarrow> api = Some None"
  by (simp add: orf_attempt_def split: option.splits)

lemma calls_snd_orf_attempt:
  "calls (snd (orf_attempt c api m)) = calls m @ (case api of None \<Rightarrow> [] | Some x \<Rightarrow> [c])"
  by (simp add: orf_attempt_def call_def split: option.splits)

lemma calls_call: "calls (call c m) = calls m @ [c]"
  by (simp add: call_def)

lemma in_set_attempt_calls:
  "x \<in> set (case api of None \<Rightarrow> [] | Some y \<Rightarrow> [c]) \<longleftrightarrow> api \<noteq> None \<and> x = c"
  by (cases api) auto

lemma fst_orf_build_and_save:
  "fst (orf_build_and_save m) =
     (case get_editor_subsystem m of
        Some e \<Rightarrow> Inl e
      | None \<Rightarrow>
         Inr ((rebuild_lods m = Some None \<or> build_static_mesh m = Some None
                \<or> build m = Some None)
              \<and> (save_loaded_asset m = None
                   \<or> (get_outer m = None \<and> save_packages m = Some None))))"
  by (auto simp: orf_build_and_save_def Let_def case_prod_beta fst_orf_attempt
           split: option.splits)

lemma fst_orf_build_and_save_Inl:
  "fst (orf_build_and_save m) = Inl e \<longleftrightarrow> get_editor_subsystem m = Some e"
  by (simp add: fst_orf_build_and_save split: option.splits)

lemma calls_orf_build_and_save:
  "\<exists>cs. calls (snd (orf_build_and_save m)) = calls m @ cs \<and> ReadPercentTriangles \<notin> set cs"
proof (cases "get_editor_subsystem m")
  case (Some e)
  then show ?thesis
    by (simp add: orf_build_and_save_def Let_def calls_call)
next
  case None
  then show ?thesis
    by (cases "get_outer m")
       (simp_all add: orf_build_and_save_def Let_def case_prod_beta calls_snd_orf_attempt
          calls_call in_set_attempt_calls)
qed


lemma orf_set_Inr: "\<exists>b. fst (orf_set_percent_triangles_lod0 m v) = Inr b"
  by (auto simp: fst_orf_set_cases split: outcome.splits)

lemma orf_process_mesh_unfold:
  assumes "orf_set_percent_triangles_lod0 (orf_asset mi) orf_TARGET_PERCENT_RAW = (Inr b1, a1)"
    and "orf_build_and_save a1 = (r2, a2)"
  shows "orf_process_mesh mi False =
    (if b1 then
       (case r2 of
          Inl e \<Rightarrow> (Inl e, mi\<lparr>orf_asset := a2\<rparr>)
        | Inr b2 \<Rightarrow>
           (if b2 then (Inr True, mi\<lparr>orf_asset := a2, orf_action := ''FIXED'',
                                     orf_percent_raw_after := Some orf_TARGET_PERCENT_RAW\<rparr>)
            else (Inr False, mi\<lparr>orf_asset := a2, orf_action := ''SAVE-FAIL''\<rparr>)))
     else (Inr False, mi\<lparr>orf_asset := a1, orf_action := ''SET-FAIL''\<rparr>))"
  by (cases r2) (simp_all add: orf_process_mesh_def assms)

lemma orf_process_mesh_dry:
  "orf_process_mesh mi True =
     (Inr True, mi\<lparr>orf_action := ''DRY-RUN'',
                    orf_percent_raw_after := Some orf_TARGET_PERCENT_RAW\<rparr>)"
  by (simp add: orf_process_mesh_def)

text \<open>
  Claim C7. \<open>process_mesh\<close> of OverReducedFinder leaves \<open>percent_raw_before\<close> of the
  record as the scan stored it, and the host calls it makes on the asset, in a dry run or
  not, include no read of \<open>percent_triangles\<close>: the ratio is not read again before or
  after the write.
\<close>

theorem orf_process_mesh_no_reread:
  "orf_percent_raw_before (snd (orf_process_mesh mesh_info dry_run))
     = orf_percent_raw_before mesh_info
   \<and> (\<exists>cs. calls (orf_asset (snd (orf_process_mesh mesh_info dry_run)))
          = calls (orf_asset mesh_info) @ cs
        \<and> ReadPercentTriangles \<notin> set cs)"
proof (cases dry_run)
  case True
  then show ?thesis by (simp add: orf_process_mesh_dry)
next
  case False
  obtain b1 a1 where e1:
    "orf_set_percent_triangles_lod0 (orf_asset mesh_info) orf_TARGET_PERCENT_RAW = (Inr b1, a1)"
    using orf_set_Inr by (metis prod.collapse)
  obtain r2 a2 where e2: "orf_build_and_save a1 = (r2, a2)"
    by (metis prod.collapse)
  obtain c1 where c1: "calls a1 = calls (orf_asset mesh_info) @ c1"
    and n1: "ReadPercentTriangles \<notin> set c1"
    using calls_orf_set [of "orf_asset mesh_info" orf_TARGET_PERCENT_RAW] by (auto simp: e1)
  obtain c2 where c2: "calls a2 = calls a1 @ c2" and n2: "ReadPercentTriangles \<notin> set c2"
    using calls_orf_build_and_save [of a1] by (auto simp: e2)
  have "\<exists>cs. calls a2 = calls (orf_asset mesh_info) @ cs \<and> ReadPercentTriangles \<notin> set cs"
    using c1 c2 n1 n2 by (intro exI [of _ "c1 @ c2"]) simp
  moreover have "\<exists>cs. calls a1 = calls (orf_asset mesh_info) @ cs
      \<and> ReadPercentTriangles \<notin> set cs"
    using c1 n1 by blast
  ultimately show ?thesis
    using False by (simp add: orf_process_mesh_unfold [OF e1 e2] split: sum.splits)
qed

text \<open>A run on a writable mesh whose save fails: the record keeps its ratio, and the
  calls made on the asset are these.\<close>

theorem orf_process_mesh_no_reread_witness:
  "orf_percent_raw_before (snd (orf_process_mesh (info_of mesh_full) False)) = 5 / 100
   \<and> orf_action (snd (orf_process_mesh (info_of mesh_full) False)) = ''SAVE-FAIL''
   \<and> calls (orf_asset (snd (orf_process_mesh (info_of mesh_full) False)))
        = [GetEditorProperty ''lods'', GetEditorProperty ''source_models'',
           GetEditorProperty ''reduction_settings'', SetEditorProperty ''percent_triangles'',
           SetEditorProperty ''reduction_settings'', SetEditorProperty ''source_models'',
           GetEditorSubsystem, SaveLoadedAsset, GetOuter]
   \<and> orf_percent_raw_before (snd (orf_process_mesh (info_of mesh_full) True)) = 5 / 100"
proof -
  have b: "orf_percent_raw_before (info_of mesh_full) = 5 / 100"
    by (simp add: info_of_def)
  have e: "orf_action (snd (orf_process_mesh (info_of mesh_full) False)) = ''SAVE-FAIL''
      \<and> calls (orf_asset (snd (orf_process_mesh (info_of mesh_full) False)))
        = [GetEditorProperty ''lods'', GetEditorProperty ''source_models'',
           GetEditorProperty ''reduction_settings'', SetEditorProperty ''percent_triangles'',
           SetEditorProperty ''reduction_settings'', SetEditorProperty ''source_models'',
           GetEditorSubsystem, SaveLoadedAsset, GetOuter]"
    by (simp add: orf_process_mesh_def orf_set_percent_triangles_lod0_def
          write_via_lods_def write_via_source_models_def orf_save_defs
          orf_TARGET_PERCENT_RAW_def info_of_def mesh_full_def example_defs)
  from orf_process_mesh_no_reread [of "info_of mesh_full" False]
    orf_process_mesh_no_reread [of "info_of mesh_full" True] b e
  show ?thesis by simp
qed

lemmas nanite_defs = ensure_nanite_disabled_def nanite_via_method_def nanite_via_settings_def
  call_def Let_def


lemma ensure_nanite_disabled_method:
  "is_nanite_enabled m = None \<Longrightarrow> set_nanite_enabled m = None \<Longrightarrow>
   fst (ensure_nanite_disabled m) = Inr (nanite_enabled m, False, nanite_enabled m)
   \<and> nanite_enabled (snd (ensure_nanite_disabled m)) = False
   \<and> (nanite_enabled m \<longrightarrow> SetNaniteEnabled \<in> set (calls (snd (ensure_nanite_disabled m))))"
  by (simp add: nanite_defs)

lemma ensure_nanite_disabled_keeps:
  "lods (snd (ensure_nanite_disabled m)) = lods m"
  "set_lods (snd (ensure_nanite_disabled m)) = set_lods m"
  "source_models (snd (ensure_nanite_disabled m)) = source_models m"
  "set_source_models (snd (ensure_nanite_disabled m)) = set_source_models m"
  "lod_reduction_settings (snd (ensure_nanite_disabled m)) = lod_reduction_settings m"
  "set_lod_reduction_settings (snd (ensure_nanite_disabled m)) = set_lod_reduction_settings m"
  "get_editor_subsystem (snd (ensure_nanite_disabled m)) = get_editor_subsystem m"
  "get_outer (snd (ensure_nanite_disabled m)) = get_outer m"
  by (simp_all add: nanite_defs split: option.splits sum.splits if_splits prod.splits)



lemma fst_pt_build_and_save:
  "fst (pt_build_and_save m) =
     (case get_editor_subsystem m of
        Some e \<Rightarrow> Inl e
      | None \<Rightarrow> (case get_outer m of Some e \<Rightarrow> Inl e | None \<Rightarrow> Inr ()))"
  by (simp add: pt_build_and_save_def case_prod_beta Let_def split: option.splits)

lemma write_keeps_get_editor_subsystem:
  "get_editor_subsystem (snd (write_via_lods v m)) = get_editor_subsystem m"
  "get_editor_subsystem (snd (write_via_source_models v m)) = get_editor_subsystem m"
  "get_editor_subsystem (snd (write_via_subsystem v m)) = get_editor_subsystem m"
  by (simp_all add: write_defs split: sum.splits list.splits option.splits)

lemma write_keeps_get_outer:
  "get_outer (snd (write_via_lods v m)) = get_outer m"
  "get_outer (snd (write_via_source_models v m)) = get_outer m"
  "get_outer (snd (write_via_subsystem v m)) = get_outer m"
  by (simp_all add: write_defs split: sum.splits list.splits option.splits)

lemma pt_set_keeps_lookups:
  "get_editor_subsystem (snd (pt_set_percent_triangles_lod0 m v)) = get_editor_subsystem m"
  "get_outer (snd (pt_set_percent_triangles_lod0 m v)) = get_outer m"
  by (rule pt_set_preserves; simp add: write_keeps_get_editor_subsystem write_keeps_get_outer
        call_def)+


lemma call_keeps_nanite: "nanite_enabled (call c m) = nanite_enabled m"
  by (simp add: call_def)

lemma calls_snd_pt_attempt:
  "calls (snd (pt_attempt c api m)) =
     calls m @ (case api of None \<Rightarrow> [] | Some None \<Rightarrow> [c]
                | Some (Some e) \<Rightarrow> [c, GetName, UnrealLog])"
  by (simp add: pt_attempt_def call_def split: option.splits)

lemma pt_attempt_keeps_nanite:
  "nanite_enabled (snd (pt_attempt c api m)) = nanite_enabled m"
  by (simp add: pt_attempt_def call_def split: option.splits)

lemma pt_build_and_save_keeps_nanite:
  "nanite_enabled (snd (pt_build_and_save m)) = nanite_enabled m"
proof (cases "get_editor_subsystem m")
  case (Some e)
  then show ?thesis by (simp add: pt_build_and_save_def Let_def call_def)
next
  case None
  then show ?thesis
    by (cases "get_outer m")
       (simp_all add: pt_build_and_save_def Let_def case_prod_beta pt_attempt_keeps_nanite
          call_keeps_nanite)
qed

lemma pt_set_keeps_nanite:
  "nanite_enabled (snd (pt_set_percent_triangles_lod0 m v)) = nanite_enabled m"
  by (rule pt_set_preserves) (simp_all add: write_keeps_nanite_enabled call_keeps_nanite)

lemma calls_subset_pt_set:
  "set (calls m) \<subseteq> set (calls (snd (pt_set_percent_triangles_lod0 m v)))"
proof -
  have a: "set (calls m) \<subseteq> set (calls (snd (write_via_lods v m)))" for v m
    using calls_write_via_lods [of v m] by auto
  have b: "set (calls m) \<subseteq> set (calls (snd (write_via_source_models v m)))" for v m
    using calls_write_via_source_models [of v m] by auto
  have c: "set (calls m) \<subseteq> set (calls (snd (write_via_subsystem v m)))" for v m
    using calls_write_via_subsystem [of v m] by auto
  have d: "set (calls m) \<subseteq> set (calls (call x m))" for x m
    by (auto simp: call_def)
  show ?thesis
    unfolding pt_set_percent_triangles_lod0_def
    by (simp add: case_prod_beta split: outcome.splits)
       (meson a b c d subset_trans)
qed

lemma calls_pt_build_and_save:
  "\<exists>cs. calls (snd (pt_build_and_save m)) = calls m @ cs"
proof (cases "get_editor_subsystem m")
  case (Some e)
  then show ?thesis by (simp add: pt_build_and_save_def Let_def calls_call)
next
  case None
  then show ?thesis
    by (cases "get_outer m")
       (simp_all add: pt_build_and_save_def Let_def case_prod_beta calls_snd_pt_attempt
          calls_call)
qed

lemma calls_subset_pt_build_and_save:
  "set (calls m) \<subseteq> set (calls (snd (pt_build_and_save m)))"
  using calls_pt_build_and_save [of m] by auto

text \<open>process_mesh with its three sub-results named.\<close>

lemma pt_process_mesh_unfold:
  assumes "pt_get_percent_triangles_lod0 (call GetName m) = (Inr (Some p), m1)"
    and "pt_tri_count m1 = (tc, m2)"
    and "ensure_nanite_disabled m2 = (Inr (w, a, c), m3)"
  shows "pt_process_mesh m d =
    (if pt_SKIP_IF_ALREADY_BELOW_TARGET \<and> \<bar>p - pt_TARGET_PERCENT_RAW\<bar> \<le> pt_EPS_RAW
     then (Inr (False, AlreadyAtTarget (get_name m) p), m3)
     else if pt_TRIANGLE_CUTOFF > 0 \<and> tc \<ge> 0 \<and> tc \<le> pt_TRIANGLE_CUTOFF
     then (Inr (False, SkippedCutoff (get_name m) tc), m3)
     else if pt_APPLY_IF_PERCENT_EQ_FULL \<and> \<bar>p - pt_ONLY_WHEN_EQUALS_RAW\<bar> > pt_EPS_RAW
     then (Inr (False, SkippedNotFull (get_name m) (p * 100) p), m3)
     else if d
     then (Inr (True, WouldChange (get_name m) (p * 100) tc p w a c), m3)
     else if fst (pt_set_percent_triangles_lod0 m3 pt_TARGET_PERCENT_RAW) = Inr True
     then ((case fst (pt_build_and_save
                       (snd (pt_set_percent_triangles_lod0 m3 pt_TARGET_PERCENT_RAW))) of
              Inl e \<Rightarrow> Inl e
            | Inr u \<Rightarrow> Inr (True, Changed (get_name m) (p * 100) tc p w a c)),
           snd (pt_build_and_save (snd (pt_set_percent_triangles_lod0 m3 pt_TARGET_PERCENT_RAW))))
     else (Inr (False, FailedToApply (get_name m) (p * 100) p),
           snd (pt_set_percent_triangles_lod0 m3 pt_TARGET_PERCENT_RAW)))"
proof -
  obtain b m4 where e4: "pt_set_percent_triangles_lod0 m3 pt_TARGET_PERCENT_RAW = (Inr b, m4)"
    using orf_set_Inr [of m3 pt_TARGET_PERCENT_RAW]
    by (metis fst_pt_set_eq_orf prod.collapse)
  obtain r5 m5 where e5: "pt_build_and_save m4 = (r5, m5)"
    by (metis prod.collapse)
  show ?thesis
    by (cases b; cases r5) (simp_all add: pt_process_mesh_def Let_def assms e4 e5)
qed


lemma snd_pt_tri_count:
  "snd (pt_tri_count m) = m\<lparr>calls := calls (snd (pt_tri_count m))\<rparr>"
  by (simp add: pt_tri_count_def call_def split: option.splits sum.splits)

lemma pt_tri_count_frame: "\<exists>tc cs. pt_tri_count m = (tc, m\<lparr>calls := cs\<rparr>)"
  using snd_pt_tri_count [of m] by (metis prod.collapse)

text \<open>The state in which process_mesh reaches ensure_nanite_disabled.\<close>

lemma pt_process_mesh_prefix:
  assumes "fst (pt_get_percent_triangles_lod0 m) = Inr (Some p)"
  shows "\<exists>c1 tc c2. pt_get_percent_triangles_lod0 (call GetName m)
             = (Inr (Some p), m\<lparr>calls := c1\<rparr>)
           \<and> pt_tri_count (m\<lparr>calls := c1\<rparr>) = (tc, m\<lparr>calls := c2\<rparr>)"
proof -
  let ?m0 = "call GetName m"
  have m0: "?m0 = m\<lparr>calls := calls ?m0\<rparr>" by (simp add: call_def)
  have "fst (pt_get_percent_triangles_lod0 ?m0) = Inr (Some p)"
    using assms by (subst m0) (simp only: fst_pt_get_calls)
  moreover obtain c1 where "snd (pt_get_percent_triangles_lod0 ?m0) = ?m0\<lparr>calls := c1\<rparr>"
    using snd_pt_get_frame by blast
  ultimately have e1: "pt_get_percent_triangles_lod0 ?m0 = (Inr (Some p), m\<lparr>calls := c1\<rparr>)"
    by (simp add: prod_eq_iff call_def)
  obtain tc c2 where "pt_tri_count (m\<lparr>calls := c1\<rparr>) = (tc, m\<lparr>calls := c1\<rparr>\<lparr>calls := c2\<rparr>)"
    using pt_tri_count_frame by blast
  with e1 show ?thesis
    by (intro exI [of _ c1] exI [of _ tc] exI [of _ c2]) simp
qed

lemma fst_write_cong:
  "lods m' = lods m \<Longrightarrow> set_lods m' = set_lods m \<Longrightarrow>
     fst (write_via_lods v m') = fst (write_via_lods v m)"
  "source_models m' = source_models m \<Longrightarrow> set_source_models m' = set_source_models m \<Longrightarrow>
     fst (write_via_source_models v m') = fst (write_via_source_models v m)"
  "lod_reduction_settings m' = lod_reduction_settings m \<Longrightarrow>
   set_lod_reduction_settings m' = set_lod_reduction_settings m \<Longrightarrow>
     fst (write_via_subsystem v m') = fst (write_via_subsystem v m)"
  by (simp_all add: write_defs split: sum.splits list.splits option.splits)

lemma fst_pt_set_after_nanite:
  "fst (pt_set_percent_triangles_lod0 (snd (ensure_nanite_disabled (m\<lparr>calls := cs\<rparr>))) v)
     = fst (pt_set_percent_triangles_lod0 m v)"
proof -
  let ?m3 = "snd (ensure_nanite_disabled (m\<lparr>calls := cs\<rparr>))"
  have "fst (write_via_lods v ?m3) = fst (write_via_lods v m)"
    by (rule fst_write_cong) (simp_all add: ensure_nanite_disabled_keeps)
  moreover have "fst (write_via_source_models v ?m3) = fst (write_via_source_models v m)"
    by (rule fst_write_cong) (simp_all add: ensure_nanite_disabled_keeps)
  moreover have "fst (write_via_subsystem v ?m3) = fst (write_via_subsystem v m)"
    by (rule fst_write_cong) (simp_all add: ensure_nanite_disabled_keeps)
  ultimately show ?thesis
    by (simp only: fst_pt_set_eq_orf fst_orf_set_cases)
qed

lemma fst_ensure_nanite_disabled_calls:
  "fst (ensure_nanite_disabled (m\<lparr>calls := cs\<rparr>)) = fst (ensure_nanite_disabled m)"
  by (simp add: nanite_defs split: option.splits sum.splits if_splits prod.splits)

lemma fst_pt_tri_count_calls:
  "fst (pt_tri_count (m\<lparr>calls := cs\<rparr>)) = fst (pt_tri_count m)"
  by (simp add: pt_tri_count_def split: option.splits sum.splits)

text \<open>The status of process_mesh when the ratio is readable, in terms of the mesh it is
  given.\<close>

lemma fst_pt_process_mesh_readable:
  assumes "fst (pt_get_percent_triangles_lod0 m) = Inr (Some p)"
  shows "fst (pt_process_mesh m d) =
    (case fst (ensure_nanite_disabled m) of
       Inl e \<Rightarrow> Inl e
     | Inr (w, a, c) \<Rightarrow>
        (if pt_SKIP_IF_ALREADY_BELOW_TARGET \<and> \<bar>p - pt_TARGET_PERCENT_RAW\<bar> \<le> pt_EPS_RAW
         then Inr (False, AlreadyAtTarget (get_name m) p)
         else if pt_TRIANGLE_CUTOFF > 0 \<and> fst (pt_tri_count m) \<ge> 0
                 \<and> fst (pt_tri_count m) \<le> pt_TRIANGLE_CUTOFF
         then Inr (False, SkippedCutoff (get_name m) (fst (pt_tri_count m)))
         else if pt_APPLY_IF_PERCENT_EQ_FULL \<and> \<bar>p - pt_ONLY_WHEN_EQUALS_RAW\<bar> > pt_EPS_RAW
         then Inr (False, SkippedNotFull (get_name m) (p * 100) p)
         else if d
         then Inr (True, WouldChange (get_name m) (p * 100) (fst (pt_tri_count m)) p w a c)
         else if fst (pt_set_percent_triangles_lod0 m pt_TARGET_PERCENT_RAW) = Inr True
         then (case get_editor_subsystem m of
                 Some e \<Rightarrow> Inl e
               | None \<Rightarrow>
                  (case get_outer m of
                     Some e \<Rightarrow> Inl e
                   | None \<Rightarrow>
                      Inr (True, Changed (get_name m) (p * 100) (fst (pt_tri_count m)) p
                                   w a c)))
         else Inr (False, FailedToApply (get_name m) (p * 100) p)))"
proof -
  obtain c1 tc c2 where e1:
      "pt_get_percent_triangles_lod0 (call GetName m) = (Inr (Some p), m\<lparr>calls := c1\<rparr>)"
    and e2: "pt_tri_count (m\<lparr>calls := c1\<rparr>) = (tc, m\<lparr>calls := c2\<rparr>)"
    using pt_process_mesh_prefix [OF assms] by blast
  have tc: "fst (pt_tri_count m) = tc"
    using e2 fst_pt_tri_count_calls [where m = m and cs = c1] by simp
  let ?m2 = "m\<lparr>calls := c2\<rparr>"
  obtain r m3 where e3: "ensure_nanite_disabled ?m2 = (r, m3)"
    by (metis prod.collapse)
  then have m3: "m3 = snd (ensure_nanite_disabled ?m2)" by simp
  have r: "fst (ensure_nanite_disabled m) = r"
    using e3 fst_ensure_nanite_disabled_calls [where m = m and cs = c2] by simp
  show ?thesis
  proof (cases r)
    case (Inl e)
    with e3 have "fst (pt_process_mesh m d) = Inl e"
      by (simp add: pt_process_mesh_def Let_def e1 e2)
    with Inl r show ?thesis by simp
  next
    case (Inr t)
    obtain w a c where t: "t = (w, a, c)" by (cases t) auto
    let ?m4 = "snd (pt_set_percent_triangles_lod0 m3 pt_TARGET_PERCENT_RAW)"
    have s: "fst (pt_set_percent_triangles_lod0 m3 pt_TARGET_PERCENT_RAW)
        = fst (pt_set_percent_triangles_lod0 m pt_TARGET_PERCENT_RAW)"
      unfolding m3 by (rule fst_pt_set_after_nanite)
    have "get_editor_subsystem m3 = get_editor_subsystem m" "get_outer m3 = get_outer m"
      by (simp_all add: m3 ensure_nanite_disabled_keeps)
    then have k: "get_editor_subsystem ?m4 = get_editor_subsystem m"
      "get_outer ?m4 = get_outer m"
      by (simp_all add: pt_set_keeps_lookups)
    have b: "fst (pt_build_and_save ?m4) =
        (case get_editor_subsystem m of
           Some e \<Rightarrow> Inl e
         | None \<Rightarrow> (case get_outer m of Some e \<Rightarrow> Inl e | None \<Rightarrow> Inr ()))"
      unfolding fst_pt_build_and_save k by (rule refl)
    note u = pt_process_mesh_unfold [OF e1 e2 e3 [unfolded Inr t], of d]
    have "fst (pt_process_mesh m d) =
        (if pt_SKIP_IF_ALREADY_BELOW_TARGET \<and> \<bar>p - pt_TARGET_PERCENT_RAW\<bar> \<le> pt_EPS_RAW
         then Inr (False, AlreadyAtTarget (get_name m) p)
         else if pt_TRIANGLE_CUTOFF > 0 \<and> tc \<ge> 0 \<and> tc \<le> pt_TRIANGLE_CUTOFF
         then Inr (False, SkippedCutoff (get_name m) tc)
         else if pt_APPLY_IF_PERCENT_EQ_FULL \<and> \<bar>p - pt_ONLY_WHEN_EQUALS_RAW\<bar> > pt_EPS_RAW
         then Inr (False, SkippedNotFull (get_name m) (p * 100) p)
         else if d
         then Inr (True, WouldChange (get_name m) (p * 100) tc p w a c)
         else if fst (pt_set_percent_triangles_lod0 m pt_TARGET_PERCENT_RAW) = Inr True
         then (case fst (pt_build_and_save ?m4) of
                 Inl e \<Rightarrow> Inl e
               | Inr u \<Rightarrow> Inr (True, Changed (get_name m) (p * 100) tc p w a c))
         else Inr (False, FailedToApply (get_name m) (p * 100) p))"
      unfolding u s by (simp only: if_distrib [of fst] fst_conv)
    also have "(case fst (pt_build_and_save ?m4) of
                 Inl e \<Rightarrow> Inl e
               | Inr u \<Rightarrow> Inr (True, Changed (get_name m) (p * 100) tc p w a c))
        = (case get_editor_subsystem m of
                 Some e \<Rightarrow> Inl e
               | None \<Rightarrow>
                  (case get_outer m of
                     Some e \<Rightarrow> Inl e
                   | None \<Rightarrow> Inr (True, Changed (get_name m) (p * 100) tc p w a c)))"
      unfolding b by (simp split: option.splits)
    finally show ?thesis
      unfolding r Inr t tc by simp
  qed
qed

text \<open>
  Claim C8. In percenttriangles, \<open>process_mesh\<close> calls \<open>ensure_nanite_disabled\<close> once the
  ratio has been read, before the skip checks and before the dry-run check. On a mesh with
  a readable ratio and Nanite enabled through \<open>is_nanite_enabled\<close> and
  \<open>set_nanite_enabled\<close>, every run, dry or not, skipped or not, calls
  \<open>set_nanite_enabled(False)\<close> and leaves Nanite disabled. The run returns a status
  when it is a dry run, and also otherwise unless \<open>build_and_save\<close> raises at one of its
  two calls outside a \<open>try\<close> block.
\<close>

theorem dry_run_disables_nanite:
  "fst (pt_get_percent_triangles_lod0 m) = Inr (Some p)
     \<and> is_nanite_enabled m = None \<and> set_nanite_enabled m = None \<and> nanite_enabled m
   \<longrightarrow> nanite_enabled (snd (pt_process_mesh m dry_run)) = False
     \<and> SetNaniteEnabled \<in> set (calls (snd (pt_process_mesh m dry_run)))
     \<and> (dry_run \<or> (get_editor_subsystem m = None \<and> get_outer m = None)
          \<longrightarrow> (\<exists>r. fst (pt_process_mesh m dry_run) = Inr r))"
proof (intro impI; elim conjE)
  assume r: "fst (pt_get_percent_triangles_lod0 m) = Inr (Some p)"
    and n: "is_nanite_enabled m = None" "set_nanite_enabled m = None"
    and en: "nanite_enabled m"
  obtain c1 tc c2 where e1:
      "pt_get_percent_triangles_lod0 (call GetName m) = (Inr (Some p), m\<lparr>calls := c1\<rparr>)"
    and e2: "pt_tri_count (m\<lparr>calls := c1\<rparr>) = (tc, m\<lparr>calls := c2\<rparr>)"
    using pt_process_mesh_prefix [OF r] by blast
  let ?m2 = "m\<lparr>calls := c2\<rparr>"
  define m3 where "m3 = snd (ensure_nanite_disabled ?m2)"
  have "is_nanite_enabled ?m2 = None" "set_nanite_enabled ?m2 = None"
    using n by simp_all
  from ensure_nanite_disabled_method [OF this] en
  have f3: "fst (ensure_nanite_disabled ?m2) = Inr (True, False, True)"
    and d3: "nanite_enabled m3 = False"
    and s3: "SetNaniteEnabled \<in> set (calls m3)"
    by (simp_all add: m3_def)
  from f3 have e3: "ensure_nanite_disabled ?m2 = (Inr (True, False, True), m3)"
    by (simp add: m3_def prod_eq_iff)
  let ?m4 = "snd (pt_set_percent_triangles_lod0 m3 pt_TARGET_PERCENT_RAW)"
  let ?m5 = "snd (pt_build_and_save ?m4)"
  have d4: "nanite_enabled ?m4 = False" by (simp add: pt_set_keeps_nanite d3)
  have d5: "nanite_enabled ?m5 = False" by (simp add: pt_build_and_save_keeps_nanite d4)
  have s4: "SetNaniteEnabled \<in> set (calls ?m4)"
    using s3 calls_subset_pt_set by blast
  have s5: "SetNaniteEnabled \<in> set (calls ?m5)"
    using s4 calls_subset_pt_build_and_save by blast
  note u = pt_process_mesh_unfold [OF e1 e2 e3, of dry_run]
  have g1: "nanite_enabled (snd (pt_process_mesh m dry_run)) = False"
    unfolding u using d3 d4 d5 by simp
  have g2: "SetNaniteEnabled \<in> set (calls (snd (pt_process_mesh m dry_run)))"
    unfolding u using s3 s4 s5 by simp
  from ensure_nanite_disabled_method [OF n] en
  have f: "fst (ensure_nanite_disabled m) = Inr (True, False, True)" by simp
  have g3: "dry_run \<or> (get_editor_subsystem m = None \<and> get_outer m = None)
      \<longrightarrow> (\<exists>r. fst (pt_process_mesh m dry_run) = Inr r)"
    unfolding fst_pt_process_mesh_readable [OF r] f by (cases dry_run) auto
  from g1 g2 g3
  show "nanite_enabled (snd (pt_process_mesh m dry_run)) = False
     \<and> SetNaniteEnabled \<in> set (calls (snd (pt_process_mesh m dry_run)))
     \<and> (dry_run \<or> (get_editor_subsystem m = None \<and> get_outer m = None)
          \<longrightarrow> (\<exists>r. fst (pt_process_mesh m dry_run) = Inr r))"
    by simp
qed

lemmas pt_constants = pt_TARGET_PERCENT_UI_def pt_ONLY_WHEN_EQUALS_UI_def pt_EPS_RAW_def
  pt_TARGET_PERCENT_RAW_def pt_ONLY_WHEN_EQUALS_RAW_def pt_TRIANGLE_CUTOFF_def
  pt_APPLY_IF_PERCENT_EQ_FULL_def pt_SKIP_IF_ALREADY_BELOW_TARGET_def

text \<open>A dry run that would change the mesh, and a dry run and a run that skip it: each
  turns Nanite off.\<close>

theorem dry_run_disables_nanite_witness:
  "nanite_enabled mesh_nanite_full
   \<and> fst (pt_process_mesh mesh_nanite_full True)
       = Inr (True, WouldChange ''SM_Test'' 100 (- 1) 1 True False True)
   \<and> nanite_enabled (snd (pt_process_mesh mesh_nanite_full True)) = False
   \<and> nanite_enabled mesh_nanite_half
   \<and> fst (pt_process_mesh mesh_nanite_half True)
       = Inr (False, SkippedNotFull ''SM_Test'' 50 (1 / 2))
   \<and> nanite_enabled (snd (pt_process_mesh mesh_nanite_half True)) = False
   \<and> fst (pt_process_mesh mesh_nanite_half False)
       = Inr (False, SkippedNotFull ''SM_Test'' 50 (1 / 2))
   \<and> nanite_enabled (snd (pt_process_mesh mesh_nanite_half False)) = False"
proof -
  have g1: "fst (pt_get_percent_triangles_lod0 mesh_nanite_full) = Inr (Some 1)"
    by (simp add: pt_get_percent_triangles_lod0_def mesh_nanite_full_def example_defs read_defs)
  have g2: "fst (pt_get_percent_triangles_lod0 mesh_nanite_half) = Inr (Some (1 / 2))"
    by (simp add: pt_get_percent_triangles_lod0_def mesh_nanite_half_def example_defs read_defs)
  have h1: "is_nanite_enabled mesh_nanite_full = None"
    "set_nanite_enabled mesh_nanite_full = None" "nanite_enabled mesh_nanite_full"
    by (simp_all add: mesh_nanite_full_def bare_mesh_def)
  have h2: "is_nanite_enabled mesh_nanite_half = None"
    "set_nanite_enabled mesh_nanite_half = None" "nanite_enabled mesh_nanite_half"
    by (simp_all add: mesh_nanite_half_def bare_mesh_def)
  have v1: "fst (pt_process_mesh mesh_nanite_full True)
       = Inr (True, WouldChange ''SM_Test'' 100 (- 1) 1 True False True)"
    by (simp add: pt_process_mesh_def pt_get_percent_triangles_lod0_def read_defs
          pt_tri_count_def nanite_defs pt_constants mesh_nanite_full_def example_defs)
  have v2: "fst (pt_process_mesh mesh_nanite_half d)
       = Inr (False, SkippedNotFull ''SM_Test'' 50 (1 / 2))" for d
    by (simp add: pt_process_mesh_def pt_get_percent_triangles_lod0_def read_defs
          pt_tri_count_def nanite_defs pt_constants mesh_nanite_half_def example_defs)
  from dry_run_disables_nanite [of mesh_nanite_full 1 True] g1 h1
  have t1: "nanite_enabled (snd (pt_process_mesh mesh_nanite_full True)) = False"
    by blast
  from dry_run_disables_nanite [of mesh_nanite_half "1 / 2" True] g2 h2
  have t2: "nanite_enabled (snd (pt_process_mesh mesh_nanite_half True)) = False"
    by blast
  from dry_run_disables_nanite [of mesh_nanite_half "1 / 2" False] g2 h2
  have t3: "nanite_enabled (snd (pt_process_mesh mesh_nanite_half False)) = False"
    by blast
  from h1 h2 v1 v2 t1 t2 t3 show ?thesis by simp
qed


text \<open>What the two calls outside a \<open>try\<close> block do: on a writable mesh at 1.0 for which
  the subsystem lookup raises, the write goes through and then \<open>build_and_save\<close>, and
  with it \<open>process_mesh\<close>, raises in both scripts.\<close>

lemma build_and_save_lookup_raises:
  "fst (pt_process_mesh mesh_lookup_raises False) = Inl HostError
   \<and> fst (orf_process_mesh (info_of mesh_lookup_raises) False) = Inl HostError"
proof (intro conjI)
  have g: "fst (pt_get_percent_triangles_lod0 mesh_lookup_raises) = Inr (Some 1)"
    by (simp add: pt_get_percent_triangles_lod0_def read_defs mesh_lookup_raises_def
          mesh_full_def example_defs)
  have n: "fst (ensure_nanite_disabled mesh_lookup_raises) = Inr (False, False, False)"
    by (simp add: nanite_defs mesh_lookup_raises_def mesh_full_def example_defs)
  have w: "fst (pt_set_percent_triangles_lod0 mesh_lookup_raises pt_TARGET_PERCENT_RAW)
      = Inr True"
    by (simp add: pt_set_percent_triangles_lod0_def write_via_lods_def
          write_via_source_models_def call_def mesh_lookup_raises_def mesh_full_def
          example_defs)
  have l: "get_editor_subsystem mesh_lookup_raises = Some HostError"
    by (simp add: mesh_lookup_raises_def)
  show "fst (pt_process_mesh mesh_lookup_raises False) = Inl HostError"
    unfolding fst_pt_process_mesh_readable [OF g] n w l by (simp add: pt_constants)
  show "fst (orf_process_mesh (info_of mesh_lookup_raises) False) = Inl HostError"
    by (simp add: orf_process_mesh_def orf_set_percent_triangles_lod0_def
          write_via_lods_def write_via_source_models_def orf_save_defs
          orf_TARGET_PERCENT_RAW_def info_of_def mesh_lookup_raises_def mesh_full_def
          example_defs)
qed




end
